theory Spec2Isabelle
  imports Complex_Main "HOL-Library.Log_Nat"
begin

section \<open>The tooltip component of \<open>src/components/Tooltip.tsx\<close>\<close>

text \<open>
  The component keeps two measured rectangles and three flags in its React state, one
  timer handle and one child reference as instance fields, and computes the position of
  the overlay from the rectangles and the window size.

  The rectangles hold JavaScript numbers, that is IEEE 754 doubles: every sum, difference
  and quotient the component computes is rounded, and a comparison with NaN is false.
  Timer delays and the clock are natural numbers of milliseconds.
\<close>

subsection \<open>JavaScript numbers\<close>

text \<open>
  A number is NaN, an infinity, or a finite value. A finite double is a real of the form
  \<open>m * 2\<^sup>k\<close> with \<open>|m| < 2\<^sup>5\<^sup>3\<close> and \<open>-1074 \<le> k\<close>, below \<open>2\<^sup>1\<^sup>0\<^sup>2\<^sup>4\<close> in
  magnitude. The two zeros are not told apart: they compare equal, and the component
  never divides by one.
\<close>

datatype number = NaN | PosInf | NegInf | Fin real

text \<open>The binary exponent of a real other than 0: \<open>2\<^sup>e \<le> |x| < 2\<^sup>e\<^sup>+\<^sup>1\<close>.\<close>

definition expo :: "real \<Rightarrow> int" where
  "expo x =
     (if 1 \<le> \<bar>x\<bar> then bitlen \<lfloor>\<bar>x\<bar>\<rfloor> - 1
      else - bitlen (\<lceil>1 / \<bar>x\<bar>\<rceil> - 1))"

text \<open>Rounding to the nearest integer, a tie going to the even one.\<close>

definition rne :: "real \<Rightarrow> int" where
  "rne q =
     (let f = \<lfloor>q\<rfloor>; r = q - of_int f
      in if r < 1 / 2 then f
         else if 1 / 2 < r then f + 1
         else if even f then f
         else f + 1)"

text \<open>
  The distance between neighbouring doubles around \<open>x\<close>: 52 binary places below the
  exponent of \<open>x\<close>, and no finer than \<open>2\<^sup>-\<^sup>1\<^sup>0\<^sup>7\<^sup>4\<close> (the subnormal range).
\<close>

definition ulp :: "real \<Rightarrow> real" where
  "ulp x = 2 powi (max (expo x) (- 1022) - 52)"

text \<open>Rounding a real to the nearest double, ties to even, the exponent unbounded above.\<close>

definition rnd :: "real \<Rightarrow> real" where
  "rnd x = (if x = 0 then 0 else of_int (rne (x / ulp x)) * ulp x)"

text \<open>The result of an operation whose exact value is \<open>x\<close>: rounded, or an infinity on overflow.\<close>

definition round_number :: "real \<Rightarrow> number" where
  "round_number x =
     (let r = rnd x
      in if 2 ^ 1024 \<le> r then PosInf
         else if r \<le> - (2 ^ 1024) then NegInf
         else Fin r)"

fun fneg :: "number \<Rightarrow> number" where
  "fneg NaN = NaN"
| "fneg PosInf = NegInf"
| "fneg NegInf = PosInf"
| "fneg (Fin x) = Fin (- x)"

text \<open>\<open>a + b\<close>.\<close>

fun fadd :: "number \<Rightarrow> number \<Rightarrow> number" where
  "fadd NaN b = NaN"
| "fadd a NaN = NaN"
| "fadd PosInf NegInf = NaN"
| "fadd NegInf PosInf = NaN"
| "fadd PosInf b = PosInf"
| "fadd NegInf b = NegInf"
| "fadd a PosInf = PosInf"
| "fadd a NegInf = NegInf"
| "fadd (Fin x) (Fin y) = round_number (x + y)"

text \<open>\<open>a - b\<close>.\<close>

definition fsub :: "number \<Rightarrow> number \<Rightarrow> number" where
  "fsub a b = fadd a (fneg b)"

text \<open>\<open>a / 2\<close>, the only division the component makes.\<close>

fun fdiv2 :: "number \<Rightarrow> number" where
  "fdiv2 (Fin x) = round_number (x / 2)"
| "fdiv2 a = a"

text \<open>\<open>a < b\<close> and \<open>a > b\<close>: false as soon as one side is NaN.\<close>

fun flt :: "number \<Rightarrow> number \<Rightarrow> bool" where
  "flt NaN b = False"
| "flt a NaN = False"
| "flt PosInf b = False"
| "flt a NegInf = False"
| "flt NegInf b = True"
| "flt a PosInf = True"
| "flt (Fin x) (Fin y) = (x < y)"

definition fgt :: "number \<Rightarrow> number \<Rightarrow> bool" where
  "fgt a b = flt b a"

text \<open>
  A whole number of at most \<open>2\<^sup>4\<^sup>8\<close> in magnitude: on such values the sums, differences
  and halves the component computes are exact.
\<close>

definition whole :: "number \<Rightarrow> bool" where
  "whole a = (case a of Fin x \<Rightarrow> of_int \<lfloor>x\<rfloor> = x \<and> \<bar>x\<bar> \<le> 2 ^ 48 | _ \<Rightarrow> False)"

text \<open>The real a finite number stands for.\<close>

definition val :: "number \<Rightarrow> real" where
  "val a = (case a of Fin x \<Rightarrow> x | _ \<Rightarrow> 0)"

definition finite_number :: "number \<Rightarrow> bool" where
  "finite_number a = (case a of Fin x \<Rightarrow> True | _ \<Rightarrow> False)"

subsection \<open>Component state\<close>

text \<open>\<open>State.childrenLayout\<close>: the child's rectangle in window coordinates.\<close>

record ChildRect =
  cl_x :: number
  cl_y :: number
  cl_width :: number
  cl_height :: number

text \<open>\<open>State.tooltipLayout\<close>: the rendered size of the tooltip.\<close>

record TooltipRect =
  tl_width :: number
  tl_height :: number

record State =
  childrenLayout :: ChildRect
  tooltipLayout :: TooltipRect
  tooltipVisible :: bool
  tooltipOpacity :: real
  tooltipMeasured :: bool

text \<open>
  The value of the \<open>state = {...}\<close> class field. The opacity only ever holds the
  literals 0 and 0.9 and is handed to the view as it is: it is kept as the decimal.
\<close>

definition initial_state :: State where
  "initial_state =
     \<lparr>childrenLayout = \<lparr>cl_x = Fin 0, cl_y = Fin 0, cl_width = Fin 0, cl_height = Fin 0\<rparr>,
      tooltipLayout = \<lparr>tl_width = Fin 0, tl_height = Fin 0\<rparr>,
      tooltipVisible = False,
      tooltipOpacity = 0,
      tooltipMeasured = False\<rparr>"

text \<open>What \<open>Dimensions.get('window')\<close> returns.\<close>

record Window =
  win_width :: number
  win_height :: number

subsection \<open>Position calculator\<close>

text \<open>\<open>styles.tooltip.marginTop\<close>.\<close>

definition styles_tooltip_marginTop :: number where
  "styles_tooltip_marginTop = Fin 24"

definition overflowLeft :: "number \<Rightarrow> bool" where
  "overflowLeft centerDistanceFromChildren = flt centerDistanceFromChildren (Fin 0)"

definition overflowRight :: "State \<Rightarrow> Window \<Rightarrow> number \<Rightarrow> bool" where
  "overflowRight st win centerDistanceFromChildren =
     (let tooltipWidth = tl_width (tooltipLayout st);
          layoutWidth = win_width win
      in fgt (fadd centerDistanceFromChildren tooltipWidth) layoutWidth)"

text \<open>
  \<open>APPROX_STATUSBAR_HEIGHT\<close> is imported from \<open>../constants\<close>, which is not part of
  the sources at hand: it is the first parameter \<open>sb\<close> of the two functions that read it.
  The sum is taken from left to right, as JavaScript does.
\<close>

definition overflowBottom :: "number \<Rightarrow> State \<Rightarrow> Window \<Rightarrow> bool" where
  "overflowBottom sb st win =
     (let childrenY = cl_y (childrenLayout st);
          childrenHeight = cl_height (childrenLayout st);
          tooltipHeight = tl_height (tooltipLayout st);
          layoutHeight = win_height win
      in fgt (fadd (fadd (fadd childrenY childrenHeight) tooltipHeight) sb) layoutHeight)"

text \<open>The value of \<open>centerDistanceFromChildren\<close> in \<open>_getTooltipXPosition\<close>.\<close>

definition centerDistance :: "State \<Rightarrow> number" where
  "centerDistance st =
     fadd (cl_x (childrenLayout st))
       (fdiv2 (fsub (cl_width (childrenLayout st)) (tl_width (tooltipLayout st))))"

definition getTooltipXPosition :: "State \<Rightarrow> Window \<Rightarrow> number" where
  "getTooltipXPosition st win =
     (let childrenX = cl_x (childrenLayout st);
          childrenWidth = cl_width (childrenLayout st);
          tooltipWidth = tl_width (tooltipLayout st);
          centerDistanceFromChildren =
            fadd childrenX (fdiv2 (fsub childrenWidth tooltipWidth))
      in if overflowRight st win centerDistanceFromChildren
           then fsub (fadd childrenX childrenWidth) tooltipWidth
         else if overflowLeft centerDistanceFromChildren
           then childrenX
         else centerDistanceFromChildren)"

definition getTooltipYPosition :: "number \<Rightarrow> State \<Rightarrow> Window \<Rightarrow> number" where
  "getTooltipYPosition sb st win =
     (let childrenY = cl_y (childrenLayout st);
          tooltipHeight = tl_height (tooltipLayout st)
      in if overflowBottom sb st win
           then fsub (fsub (fsub childrenY tooltipHeight) styles_tooltip_marginTop) sb
         else fadd childrenY tooltipHeight)"

text \<open>
  The tooltip rectangle at the computed position lies inside the window: the position,
  the size and the window are finite, and none of the four edges is outside.
\<close>

definition inside_viewport :: "number \<Rightarrow> State \<Rightarrow> Window \<Rightarrow> bool" where
  "inside_viewport sb st win =
     (finite_number (getTooltipXPosition st win)
      \<and> finite_number (getTooltipYPosition sb st win)
      \<and> finite_number (tl_width (tooltipLayout st))
      \<and> finite_number (tl_height (tooltipLayout st))
      \<and> finite_number (win_width win)
      \<and> finite_number (win_height win)
      \<and> 0 \<le> val (getTooltipXPosition st win)
      \<and> val (getTooltipXPosition st win) + val (tl_width (tooltipLayout st))
            \<le> val (win_width win)
      \<and> 0 \<le> val (getTooltipYPosition sb st win)
      \<and> val (getTooltipYPosition sb st win) + val (tl_height (tooltipLayout st))
            \<le> val (win_height win))"

text \<open>A state whose rectangles are the given ones; the flags are those of a shown tooltip.\<close>

definition layout_state ::
  "number \<Rightarrow> number \<Rightarrow> number \<Rightarrow> number \<Rightarrow> number \<Rightarrow> number \<Rightarrow> State" where
  "layout_state cx cy cw ch tw th =
     \<lparr>childrenLayout = \<lparr>cl_x = cx, cl_y = cy, cl_width = cw, cl_height = ch\<rparr>,
      tooltipLayout = \<lparr>tl_width = tw, tl_height = th\<rparr>,
      tooltipVisible = True,
      tooltipOpacity = 9 / 10,
      tooltipMeasured = True\<rparr>"

text \<open>A finite number that is a double: rounding leaves it as it is.\<close>

definition is_double :: "number \<Rightarrow> bool" where
  "is_double a = (case a of Fin x \<Rightarrow> round_number x = Fin x | _ \<Rightarrow> True)"

text \<open>The number a decimal literal denotes: the double nearest to it.\<close>

definition dbl :: "real \<Rightarrow> number" where
  "dbl q = round_number q"

text \<open>The rectangles, the window and the status-bar offset are whole numbers.\<close>

definition whole_layout :: "number \<Rightarrow> State \<Rightarrow> Window \<Rightarrow> bool" where
  "whole_layout sb st win =
     (whole (cl_x (childrenLayout st)) \<and> whole (cl_y (childrenLayout st))
      \<and> whole (cl_width (childrenLayout st)) \<and> whole (cl_height (childrenLayout st))
      \<and> whole (tl_width (tooltipLayout st)) \<and> whole (tl_height (tooltipLayout st))
      \<and> whole (win_width win) \<and> whole (win_height win) \<and> whole sb)"

subsection \<open>Host timers and the component instance\<close>

text \<open>
  The three closures the component hands to \<open>setTimeout\<close>:
  \<^item> \<open>() => { this._showTooltip(); }\<close> (touch start);
  \<^item> \<open>() => { tooltipVisible && this._hideTooltip(); }\<close> (touch end capture), with the
    value of \<open>tooltipVisible\<close> it captured when the handler ran;
  \<^item> \<open>() => { UIManager.measure(target, ...) }\<close> (child measurement), with its target.
\<close>

datatype callback =
    ShowTooltipCb
  | HideIfVisibleCb bool
  | MeasureCb nat

text \<open>A pending timer of the host: its handle, the time it is due, its closure.\<close>

record timer =
  tid :: nat
  due :: nat
  cb :: callback

text \<open>
  What the \<open>ref\<close> callback receives: a mounted child, with the native handle
  \<open>findNodeHandle\<close> resolves it to (\<open>None\<close> for \<open>null\<close>).
\<close>

datatype mounted_child = MountedChild "nat option"

fun findNodeHandle :: "mounted_child \<Rightarrow> nat option" where
  "findNodeHandle (MountedChild h) = h"

text \<open>
  The component instance together with the part of the host it talks to: the React state,
  the instance fields \<open>_longPressTimeout\<close> and \<open>_children\<close>, the host's pending timers
  (in the order they were scheduled), the next timer handle, the clock, whether the
  \<open>Dimensions\<close> listener is registered, whether the component is mounted, the targets of
  the \<open>UIManager.measure\<close> requests not yet answered, and the number of \<open>setState\<close>
  calls made while the component was not mounted.
\<close>

record Tooltip =
  state :: State
  longPressTimeout :: "nat option"
  children_inst :: "mounted_child option"
  timers :: "timer list"
  next_id :: nat
  now :: nat
  listener :: bool
  mounted :: bool
  measuring :: "nat list"
  late_setState :: nat

definition constructed :: Tooltip where
  "constructed =
     \<lparr>state = initial_state,
      longPressTimeout = None,
      children_inst = None,
      timers = [],
      next_id = 1,
      now = 0,
      listener = False,
      mounted = False,
      measuring = [],
      late_setState = 0\<rparr>"

text \<open>\<open>setTimeout(cb, delay)\<close>: a new pending timer; returns its handle.\<close>

definition setTimeout :: "callback \<Rightarrow> nat \<Rightarrow> Tooltip \<Rightarrow> nat \<times> Tooltip" where
  "setTimeout c delay w =
     (next_id w,
      w\<lparr>timers := timers w @ [\<lparr>tid = next_id w, due = now w + delay, cb = c\<rparr>],
        next_id := Suc (next_id w)\<rparr>)"

text \<open>\<open>clearTimeout(handle)\<close>; \<open>undefined\<close> clears nothing.\<close>

definition clearTimeout :: "nat option \<Rightarrow> Tooltip \<Rightarrow> Tooltip" where
  "clearTimeout h w =
     (case h of
        None \<Rightarrow> w
      | Some i \<Rightarrow> w\<lparr>timers := filter (\<lambda>t. tid t \<noteq> i) (timers w)\<rparr>)"

text \<open>
  \<open>this.setState(update)\<close>: on a mounted component the update is applied to the state.
  React ignores a call on a component that is not mounted: the state stays as it is, and
  the call is counted.
\<close>

definition setState :: "(State \<Rightarrow> State) \<Rightarrow> Tooltip \<Rightarrow> Tooltip" where
  "setState f w =
     (if mounted w then w\<lparr>state := f (state w)\<rparr>
      else w\<lparr>late_setState := Suc (late_setState w)\<rparr>)"

definition showTooltip :: "Tooltip \<Rightarrow> Tooltip" where
  "showTooltip w = setState (\<lambda>s. s\<lparr>tooltipVisible := True\<rparr>) w"

definition hideTooltip :: "Tooltip \<Rightarrow> Tooltip" where
  "hideTooltip w = setState (\<lambda>s. s\<lparr>tooltipVisible := False\<rparr>) w"

definition clearTimeouts :: "Tooltip \<Rightarrow> Tooltip" where
  "clearTimeouts w = clearTimeout (longPressTimeout w) w"

definition setChildrenRef :: "mounted_child option \<Rightarrow> Tooltip \<Rightarrow> Tooltip" where
  "setChildrenRef element w = w\<lparr>children_inst := element\<rparr>"

text \<open>
  \<open>_setChildrenPosition\<close>: the two early returns (\<open>!this._children\<close>, and \<open>!target\<close>, which
  also holds of the handle 0), then the 500 ms timer whose handle is dropped.
\<close>

definition setChildrenPosition :: "Tooltip \<Rightarrow> Tooltip" where
  "setChildrenPosition w =
     (case children_inst w of
        None \<Rightarrow> w
      | Some c \<Rightarrow>
          (case findNodeHandle c of
             None \<Rightarrow> w
           | Some target \<Rightarrow>
               if target = 0 then w else snd (setTimeout (MeasureCb target) 500 w)))"

text \<open>The callback given to \<open>UIManager.measure\<close>.\<close>

definition measured ::
  "number \<Rightarrow> number \<Rightarrow> number \<Rightarrow> number \<Rightarrow> number \<Rightarrow> number \<Rightarrow> Tooltip \<Rightarrow> Tooltip" where
  "measured mx my mwidth mheight pageX pageY w =
     setState (\<lambda>s. s\<lparr>childrenLayout :=
        \<lparr>cl_x = pageX, cl_y = pageY, cl_width = mwidth, cl_height = mheight\<rparr>\<rparr>) w"

definition componentDidMount :: "Tooltip \<Rightarrow> Tooltip" where
  "componentDidMount w = setChildrenPosition (w\<lparr>listener := True\<rparr>)"

definition componentWillUnmount :: "Tooltip \<Rightarrow> Tooltip" where
  "componentWillUnmount w = clearTimeouts (w\<lparr>listener := False\<rparr>)"

definition handleTooltipLayout :: "number \<Rightarrow> number \<Rightarrow> Tooltip \<Rightarrow> Tooltip" where
  "handleTooltipLayout lwidth lheight w =
     (if \<not> tooltipMeasured (state w)
      then setState (\<lambda>s. s\<lparr>tooltipLayout := \<lparr>tl_width = lwidth, tl_height = lheight\<rparr>,
                            tooltipOpacity := 9 / 10,
                            tooltipMeasured := True\<rparr>) w
      else w)"

text \<open>The touch handlers; \<open>d\<close> is \<open>this.props.delayLongPress\<close>.\<close>

definition handleTouchStart :: "nat \<Rightarrow> Tooltip \<Rightarrow> Tooltip" where
  "handleTouchStart d w =
     (case setTimeout ShowTooltipCb d w of
        (h, w') \<Rightarrow> w'\<lparr>longPressTimeout := Some h\<rparr>)"

definition handleTouchEndCapture :: "nat \<Rightarrow> Tooltip \<Rightarrow> Tooltip" where
  "handleTouchEndCapture d w =
     (let visible = tooltipVisible (state w) in
      case setTimeout (HideIfVisibleCb visible) d (clearTimeouts w) of
        (h, w') \<Rightarrow> w'\<lparr>longPressTimeout := Some h\<rparr>)"

definition handleTouchCancel :: "Tooltip \<Rightarrow> Tooltip" where
  "handleTouchCancel w = hideTooltip (clearTimeouts w)"

text \<open>Running a timer's closure. The measurement closure only issues the request.\<close>

fun run_callback :: "callback \<Rightarrow> Tooltip \<Rightarrow> Tooltip" where
  "run_callback ShowTooltipCb w = showTooltip w"
| "run_callback (HideIfVisibleCb visible) w = (if visible then hideTooltip w else w)"
| "run_callback (MeasureCb target) w = w\<lparr>measuring := measuring w @ [target]\<rparr>"

text \<open>
  The closures of the timers due by time \<open>T\<close>, in the order the host runs them: by due
  time, and by scheduling order among equals (the sort is stable).
\<close>

definition due_callbacks :: "nat \<Rightarrow> timer list \<Rightarrow> callback list" where
  "due_callbacks T ts = map cb (sort_key due (filter (\<lambda>t. due t \<le> T) ts))"

text \<open>
  Time passes: the timers due by then are removed and their closures run. No closure of
  this component schedules or clears a timer, so the due set is fixed at the start.
\<close>

definition advance :: "nat \<Rightarrow> Tooltip \<Rightarrow> Tooltip" where
  "advance dt w =
     (let T = now w + dt in
      fold run_callback (due_callbacks T (timers w))
        (w\<lparr>timers := filter (\<lambda>t. T < due t) (timers w), now := T\<rparr>))"

subsection \<open>Events\<close>

text \<open>
  What the host can do to the component: mount it (the \<open>ref\<close> callback runs first, with
  the child instance or \<open>null\<close>), unmount it (\<open>componentWillUnmount\<close> runs, then the \<open>ref\<close>
  callback with \<open>null\<close>), deliver a touch or layout event, announce a window change, let
  time pass, answer the oldest measurement request.
\<close>

datatype event =
    Mount "mounted_child option"
  | Unmount
  | TouchStart
  | TouchEndCapture
  | TouchCancel
  | TooltipLayout number number
  | DimensionsChange
  | Wait nat
  | MeasureResult number number number number number number

fun step :: "nat \<Rightarrow> event \<Rightarrow> Tooltip \<Rightarrow> Tooltip" where
  "step d (Mount r) w = componentDidMount ((setChildrenRef r w)\<lparr>mounted := True\<rparr>)"
| "step d Unmount w = setChildrenRef None ((componentWillUnmount w)\<lparr>mounted := False\<rparr>)"
| "step d TouchStart w = handleTouchStart d w"
| "step d TouchEndCapture w = handleTouchEndCapture d w"
| "step d TouchCancel w = handleTouchCancel w"
| "step d (TooltipLayout lwidth lheight) w = handleTooltipLayout lwidth lheight w"
| "step d DimensionsChange w = (if listener w then setChildrenPosition w else w)"
| "step d (Wait dt) w = advance dt w"
| "step d (MeasureResult mx my mwidth mheight pageX pageY) w =
     (case measuring w of
        [] \<Rightarrow> w
      | target # pending \<Rightarrow>
          measured mx my mwidth mheight pageX pageY (w\<lparr>measuring := pending\<rparr>))"

fun run :: "nat \<Rightarrow> event list \<Rightarrow> Tooltip \<Rightarrow> Tooltip" where
  "run d [] w = w"
| "run d (e # es) w = run d es (step d e w)"

text \<open>The instances after each event of a sequence, the starting one first.\<close>

fun trace :: "nat \<Rightarrow> event list \<Rightarrow> Tooltip \<Rightarrow> Tooltip list" where
  "trace d [] w = [w]"
| "trace d (e # es) w = w # trace d es (step d e w)"

text \<open>The pending timers that show or hide the tooltip.\<close>

fun is_longpress :: "callback \<Rightarrow> bool" where
  "is_longpress ShowTooltipCb = True"
| "is_longpress (HideIfVisibleCb visible) = True"
| "is_longpress (MeasureCb target) = False"

definition longpress_timers :: "Tooltip \<Rightarrow> timer list" where
  "longpress_timers w = filter (\<lambda>t. is_longpress (cb t)) (timers w)"

fun is_layout :: "event \<Rightarrow> bool" where
  "is_layout (TooltipLayout lwidth lheight) = True"
| "is_layout e = False"

text \<open>Events other than touches and (un)mounting, and the time a sequence takes.\<close>

fun non_touch :: "event \<Rightarrow> bool" where
  "non_touch (TooltipLayout lwidth lheight) = True"
| "non_touch DimensionsChange = True"
| "non_touch (Wait dt) = True"
| "non_touch (MeasureResult mx my mwidth mheight pageX pageY) = True"
| "non_touch e = False"

fun elapsed :: "event list \<Rightarrow> nat" where
  "elapsed [] = 0"
| "elapsed (Wait dt # es) = dt + elapsed es"
| "elapsed (e # es) = elapsed es"

subsection \<open>Rendering\<close>

text \<open>
  Property values, as far as the component tells them apart: the function literal
  \<open>() => {}\<close> written in \<open>render\<close>, a function of the consumer's, a number, a string, an
  opaque value (a style, a theme), and the instance's own \<open>_setChildrenRef\<close>.
\<close>

datatype pvalue =
    Noop
  | ConsumerFn nat
  | Num real
  | Str string
  | Opaque nat
  | SetChildrenRefFn

text \<open>A JavaScript object of properties: the names it has, and their values.\<close>

type_synonym obj = "string \<Rightarrow> pvalue option"

text \<open>A React element: its props, and its \<open>ref\<close>, which React keeps apart from the props.\<close>

record element =
  el_props :: obj
  el_ref :: "pvalue option"

text \<open>
  \<open>this.props\<close>: the properties the \<open>Props\<close> type declares, and \<open>passed\<close>, whatever
  else the consumer wrote on the wrapper.
\<close>

record Props =
  title :: string
  children :: "element list"
  delayLongPress :: nat
  wrapperStyle :: "pvalue option"
  style :: "pvalue option"
  theme :: pvalue
  passed :: obj

text \<open>
  \<open>this.props\<close> without \<open>children\<close>, as one object: a declared property wins over an
  entry of the same name in \<open>passed\<close>; an optional property that is absent has no entry.
\<close>

definition props_object :: "Props \<Rightarrow> obj" where
  "props_object p =
     passed p
       ++ [''title'' \<mapsto> Str (title p),
           ''delayLongPress'' \<mapsto> Num (real (delayLongPress p)),
           ''theme'' \<mapsto> theme p]
       ++ (case wrapperStyle p of None \<Rightarrow> Map.empty | Some v \<Rightarrow> [''wrapperStyle'' \<mapsto> v])
       ++ (case style p of None \<Rightarrow> Map.empty | Some v \<Rightarrow> [''style'' \<mapsto> v])"

text \<open>
  The \<open>rest\<close> of
  \<open>const { children, title, wrapperStyle, style, theme, ...rest } = this.props\<close>.
\<close>

definition rest_of :: "Props \<Rightarrow> obj" where
  "rest_of p =
     props_object p |` (- {''children'', ''title'', ''wrapperStyle'', ''style'', ''theme''})"

text \<open>
  \<open>React.cloneElement(element, config)\<close> is React's: the new element has the props of
  the old one overridden by those of \<open>config\<close>, but \<open>ref\<close> and \<open>key\<close> are taken out of
  \<open>config\<close>, and a \<open>ref\<close> there replaces the element's.
\<close>

definition cloneElement :: "element \<Rightarrow> obj \<Rightarrow> element" where
  "cloneElement e config =
     \<lparr>el_props = el_props e ++ (config |` (- {''ref'', ''key''})),
      el_ref = (case config ''ref'' of None \<Rightarrow> el_ref e | Some r \<Rightarrow> Some r)\<rparr>"

text \<open>
  The object literal \<open>{ onLongPress: () => {}, ...rest, ref: this._setChildrenRef }\<close>:
  entries in the order written, a later one replacing an earlier one of the same name.
\<close>

definition child_config :: "Props \<Rightarrow> obj" where
  "child_config p =
     [''onLongPress'' \<mapsto> Noop] ++ rest_of p ++ [''ref'' \<mapsto> SetChildrenRefFn]"

text \<open>The tooltip view inside the portal, when it is rendered.\<close>

record tooltip_view =
  tv_opacity :: real
  tv_left :: number
  tv_top :: number
  tv_style :: "pvalue option"
  tv_title :: string

text \<open>What \<open>render\<close> returns: the wrapper's style, the tooltip view if any, the cloned child.\<close>

record rendered =
  r_wrapperStyle :: "pvalue option"
  r_tooltip :: "tooltip_view option"
  r_child :: element

text \<open>\<open>React.Children.only\<close> throws unless there is exactly one child.\<close>

datatype render_error = NotSingleChild

definition render :: "number \<Rightarrow> Window \<Rightarrow> Props \<Rightarrow> State \<Rightarrow> render_error + rendered" where
  "render sb win p st =
     (case children p of
        [childElement] \<Rightarrow>
          Inr \<lparr>r_wrapperStyle = wrapperStyle p,
               r_tooltip =
                 (if tooltipVisible st
                  then Some \<lparr>tv_opacity = tooltipOpacity st,
                             tv_left = getTooltipXPosition st win,
                             tv_top = getTooltipYPosition sb st win,
                             tv_style = style p,
                             tv_title = title p\<rparr>
                  else None),
               r_child = cloneElement childElement (child_config p)\<rparr>
      | _ \<Rightarrow> Inl NotSingleChild)"

text \<open>The \<open>onLongPress\<close> the rendered child has, if rendering succeeds and it has one.\<close>

definition child_onLongPress ::
  "number \<Rightarrow> Window \<Rightarrow> Props \<Rightarrow> State \<Rightarrow> pvalue option" where
  "child_onLongPress sb win p st =
     (case render sb win p st of
        Inl err \<Rightarrow> None
      | Inr r \<Rightarrow> el_props (r_child r) ''onLongPress'')"

subsection \<open>Invariants of the visibility state machine\<close>

text \<open>
  After a touch start on an instance with nothing pending: the tooltip is hidden, and
  every pending show timer is the one whose handle \<open>_longPressTimeout\<close> holds and is not
  due before \<open>D\<close>.
\<close>

definition armed :: "nat \<Rightarrow> nat \<Rightarrow> Tooltip \<Rightarrow> bool" where
  "armed D h w =
     (\<not> tooltipVisible (state w) \<and> longPressTimeout w = Some h
      \<and> (\<forall>t \<in> set (timers w). cb t = ShowTooltipCb \<longrightarrow> tid t = h \<and> D \<le> due t))"

text \<open>After the cancellation: the tooltip is hidden and no show timer is pending.\<close>

definition disarmed :: "Tooltip \<Rightarrow> bool" where
  "disarmed w =
     (\<not> tooltipVisible (state w) \<and> (\<forall>t \<in> set (timers w). cb t \<noteq> ShowTooltipCb))"

subsection \<open>Example inputs\<close>

text \<open>
  The props of \<open><Tooltip title="Search" {...extra}><Child {...own} /></Tooltip>\<close> with
  the default delay.
\<close>

definition example_props :: "obj \<Rightarrow> obj \<Rightarrow> Props" where
  "example_props own extra =
     \<lparr>title = ''Search'',
      children = [\<lparr>el_props = own, el_ref = None\<rparr>],
      delayLongPress = 500,
      wrapperStyle = None,
      style = None,
      theme = Opaque 0,
      passed = extra\<rparr>"

section \<open>Properties of the number model\<close>

text \<open>
  The exponent brackets its argument; values with a mantissa below \<open>2\<^sup>5\<^sup>3\<close> are doubles,
  so that sums, differences and halves of whole numbers are exact; and a rounding can be
  evaluated once the exponent is known.
\<close>

lemma powi_nat: "0 \<le> k \<Longrightarrow> (2::real) powi k = 2 ^ nat k"
  by (simp add: power_int_def)

lemma expo_bounds:
  assumes "x \<noteq> 0"
  shows "2 powi expo x \<le> \<bar>x\<bar> \<and> \<bar>x\<bar> < 2 powi (expo x + 1)"
proof (cases "1 \<le> \<bar>x\<bar>")
  case True
  define n where "n = \<lfloor>\<bar>x\<bar>\<rfloor>"
  have n: "0 < n" using True by (simp add: n_def)
  have e: "expo x = bitlen n - 1" using True by (simp add: expo_def n_def)
  have b: "2 ^ nat (bitlen n - 1) \<le> n" "n < 2 ^ nat (bitlen n)"
    using bitlen_bounds [OF n] by simp_all
  have pos: "0 < bitlen n"
    using n bitlen_eq_zero_iff [of n] bitlen_nonneg [of n] by linarith
  have "(2::real) powi expo x = of_int (2 ^ nat (bitlen n - 1))"
    using pos by (simp add: e powi_nat)
  also have "\<dots> \<le> of_int n" using b(1) by (simp only: of_int_le_iff)
  also have "\<dots> \<le> \<bar>x\<bar>" by (simp add: n_def)
  finally have lo: "2 powi expo x \<le> \<bar>x\<bar>" .
  have "n + 1 \<le> 2 ^ nat (bitlen n)" using b(2) by simp
  then have "of_int (n + 1) \<le> (of_int (2 ^ nat (bitlen n)) :: real)"
    by (simp only: of_int_le_iff)
  moreover have "\<bar>x\<bar> < of_int (n + 1)" by (simp add: n_def)
  ultimately have "\<bar>x\<bar> < 2 ^ nat (bitlen n)" by simp
  then have "\<bar>x\<bar> < 2 powi (expo x + 1)"
    using pos by (simp add: e powi_nat)
  with lo show ?thesis by simp
next
  case False
  define y where "y = 1 / \<bar>x\<bar>"
  define m where "m = \<lceil>y\<rceil> - 1"
  have x: "0 < \<bar>x\<bar>" "\<bar>x\<bar> < 1" using assms False by simp_all
  have y: "1 < y" using x by (simp add: y_def)
  have "2 \<le> \<lceil>y\<rceil>" using y by linarith
  then have m: "0 < m" by (simp add: m_def)
  have my: "of_int m < y" "y \<le> of_int m + 1"
    unfolding m_def by linarith+
  have e: "expo x = - bitlen m" using False by (simp add: expo_def m_def y_def)
  have b: "2 ^ nat (bitlen m - 1) \<le> m" "m < 2 ^ nat (bitlen m)"
    using bitlen_bounds [OF m] by simp_all
  have pos: "0 < bitlen m"
    using m bitlen_eq_zero_iff [of m] bitlen_nonneg [of m] by linarith
  have "m + 1 \<le> 2 ^ nat (bitlen m)" using b(2) by simp
  then have "of_int (m + 1) \<le> (of_int (2 ^ nat (bitlen m)) :: real)"
    by (simp only: of_int_le_iff)
  then have yhi: "y \<le> 2 ^ nat (bitlen m)" using my(2) by simp
  have "(2::real) ^ nat (bitlen m - 1) \<le> of_int m"
    using b(1) by (metis of_int_le_iff of_int_numeral of_int_power)
  then have ylo: "2 ^ nat (bitlen m - 1) < y" using my(1) by linarith
  have xy: "\<bar>x\<bar> = 1 / y" using x by (simp add: y_def)
  have "(2::real) powi expo x = 1 / 2 ^ nat (bitlen m)"
    using pos by (simp add: e power_int_def field_simps)
  also have "\<dots> \<le> 1 / y" using yhi y by (simp add: frac_le)
  finally have lo: "2 powi expo x \<le> \<bar>x\<bar>" by (simp add: xy)
  have "(2::real) powi (expo x + 1) = 1 / 2 ^ nat (bitlen m - 1)"
  proof (cases "bitlen m = 1")
    case True then show ?thesis by (simp add: e)
  next
    case False
    then have "bitlen m - 1 > 0" using pos by simp
    then have "expo x + 1 < 0" "nat (- (expo x + 1)) = nat (bitlen m - 1)" by (simp_all add: e)
    then show ?thesis by (simp add: power_int_def field_simps)
  qed
  moreover have "1 / y < 1 / 2 ^ nat (bitlen m - 1)"
    using ylo by (simp add: frac_less2)
  ultimately have "\<bar>x\<bar> < 2 powi (expo x + 1)" by (simp add: xy)
  with lo show ?thesis by simp
qed

lemma powi_mono: "a \<le> b \<Longrightarrow> (2::real) powi a \<le> 2 powi b"
  by (rule power_int_increasing) simp_all

lemma powi_less_imp: "(2::real) powi a < 2 powi b \<Longrightarrow> a < b"
  using powi_mono [of b a] by (cases "a < b") simp_all

lemma expo_eqI:
  assumes "2 powi e \<le> \<bar>x\<bar>" and "\<bar>x\<bar> < 2 powi (e + 1)"
  shows "expo x = e"
proof -
  have "x \<noteq> 0"
  proof
    assume "x = 0"
    with assms(1) have "(2::real) powi e \<le> 0" by simp
    moreover have "(0::real) < 2 powi e" by simp
    ultimately show False by linarith
  qed
  from expo_bounds [OF this]
  have b: "2 powi expo x \<le> \<bar>x\<bar>" "\<bar>x\<bar> < 2 powi (expo x + 1)" by simp_all
  have "(2::real) powi e < 2 powi (expo x + 1)" using assms(1) b(2) by linarith
  then have "e < expo x + 1" by (rule powi_less_imp)
  moreover have "(2::real) powi expo x < 2 powi (e + 1)" using assms(2) b(1) by linarith
  then have "expo x < e + 1" by (rule powi_less_imp)
  ultimately show ?thesis by simp
qed

lemma rne_of_int: "rne (of_int j) = j"
  by (simp add: rne_def)

lemma rnd_dyadic:
  assumes "\<bar>i\<bar> < 2 ^ 53" and "- 1074 \<le> k"
  shows "rnd (of_int i * 2 powi k) = of_int i * 2 powi k"
proof (cases "i = 0")
  case True
  then show ?thesis by (simp add: rnd_def)
next
  case False
  define x :: real where "x = of_int i * 2 powi k"
  define E where "E = max (expo x) (- 1022) - 52"
  have x0: "x \<noteq> 0" using False by (simp add: x_def)
  have p: "(0::real) < 2 powi k" by simp
  have absx: "\<bar>x\<bar> = of_int \<bar>i\<bar> * 2 powi k"
    by (simp add: x_def abs_mult)
  have "of_int \<bar>i\<bar> < (2::real) ^ 53"
    using assms(1) by (metis of_int_less_iff of_int_numeral of_int_power)
  then have "\<bar>x\<bar> < 2 ^ 53 * 2 powi k"
    unfolding absx using p by (simp only: mult_less_cancel_right_pos)
  also have "\<dots> = 2 powi (53 + k)"
    by (simp add: power_int_add)
  finally have "2 powi expo x < (2::real) powi (53 + k)"
    using expo_bounds [OF x0] by linarith
  then have "expo x < 53 + k" by (rule powi_less_imp)
  then have Ek: "E \<le> k" using assms(2) by (simp add: E_def)
  define j where "j = i * 2 ^ nat (k - E)"
  have "x / 2 powi E = of_int i * 2 powi (k - E)"
    by (simp add: x_def power_int_diff)
  also have "\<dots> = of_int j"
    using Ek by (simp add: j_def powi_nat)
  finally have q: "x / 2 powi E = of_int j" .
  have "rnd x = of_int (rne (x / 2 powi E)) * 2 powi E"
    using x0 by (simp add: rnd_def ulp_def E_def)
  also have "\<dots> = of_int j * 2 powi E"
    by (simp only: q rne_of_int)
  also have "\<dots> = x"
    using q by (simp add: field_simps)
  finally show ?thesis by (simp add: x_def)
qed

lemma round_number_dyadic:
  assumes "\<bar>i\<bar> < 2 ^ 53" and "- 1074 \<le> k" and "k \<le> 0"
  shows "round_number (of_int i * 2 powi k) = Fin (of_int i * 2 powi k)"
proof -
  have "of_int \<bar>i\<bar> < (2::real) ^ 53"
    using assms(1) by (metis of_int_less_iff of_int_numeral of_int_power)
  moreover have "(2::real) powi k \<le> 1"
    using powi_mono [OF assms(3)] by simp
  moreover have "(0::real) < 2 powi k" by simp
  ultimately have "of_int \<bar>i\<bar> * (2::real) powi k < 2 ^ 53"
    by (smt (verit) mult_left_le of_int_nonneg abs_ge_zero mult_nonneg_nonneg)
  then have "\<bar>of_int i * (2::real) powi k\<bar> < 2 ^ 53"
    by (simp add: abs_mult)
  moreover have "(2::real) ^ 53 < 2 ^ 1024" by simp
  ultimately have "\<not> 2 ^ 1024 \<le> of_int i * (2::real) powi k"
    and "\<not> of_int i * (2::real) powi k \<le> - (2 ^ 1024)"
    by linarith+
  then show ?thesis
    by (simp add: round_number_def rnd_dyadic [OF assms(1,2)])
qed

lemma round_number_of_int: "\<bar>i\<bar> < 2 ^ 53 \<Longrightarrow> round_number (of_int i) = Fin (of_int i)"
  using round_number_dyadic [of i 0] by simp

lemma round_number_half:
  "\<bar>i\<bar> < 2 ^ 53 \<Longrightarrow> round_number (of_int i / 2) = Fin (of_int i / 2)"
  using round_number_dyadic [of i "- 1"] by simp

lemma round_number_numeral [simp]:
  "numeral n < (2::int) ^ 53 \<Longrightarrow> round_number (numeral n) = Fin (numeral n)"
  "numeral n < (2::int) ^ 53 \<Longrightarrow> round_number (- numeral n) = Fin (- numeral n)"
  "round_number 0 = Fin 0"
  "round_number 1 = Fin 1"
  using round_number_of_int [of "numeral n"] round_number_of_int [of "- numeral n"]
    round_number_of_int [of 0] round_number_of_int [of 1]
  by simp_all

lemma no_overflow:
  fixes z M :: real
  shows "\<bar>z\<bar> < M \<Longrightarrow> (if M \<le> z then a else if z \<le> - M then b else c) = c"
  by auto

lemma round_number_eval:
  assumes "2 powi e \<le> \<bar>x\<bar>" and "\<bar>x\<bar> < 2 powi (e + 1)" and "- 1022 \<le> e"
    and "of_int (rne (x / 2 powi (e - 52))) * 2 powi (e - 52) = z"
    and "\<bar>z\<bar> < 2 ^ 1024"
  shows "round_number x = Fin z"
proof -
  have e: "expo x = e"
    using assms(1,2) by (rule expo_eqI)
  have "x \<noteq> 0"
  proof
    assume "x = 0"
    with assms(1) have "(2::real) powi e \<le> 0" by simp
    moreover have "(0::real) < 2 powi e" by simp
    ultimately show False by linarith
  qed
  then have "rnd x = z"
    using assms(3,4) by (simp add: rnd_def ulp_def e max_def)
  then show ?thesis
    unfolding round_number_def Let_def by (simp only: no_overflow [OF assms(5)])
qed

lemma wholeE:
  assumes "whole a"
  obtains i where "a = Fin (of_int i)" and "\<bar>i\<bar> \<le> 2 ^ 48"
proof (cases a)
  case (Fin x)
  with assms have x: "of_int \<lfloor>x\<rfloor> = x" and b: "\<bar>x\<bar> \<le> 2 ^ 48"
    by (simp_all add: whole_def)
  have "\<bar>of_int \<lfloor>x\<rfloor> :: real\<bar> \<le> 2 ^ 48" unfolding x by (rule b)
  then have "\<bar>\<lfloor>x\<rfloor>\<bar> \<le> 2 ^ 48"
    by (metis of_int_abs of_int_le_iff of_int_numeral of_int_power)
  with Fin x that show ?thesis by metis
qed (use assms in \<open>simp_all add: whole_def\<close>)

lemma round_number_halves:
  assumes "x = of_int n / 2" and "\<bar>n\<bar> < 2 ^ 53"
  shows "round_number x = Fin x"
  unfolding assms(1) by (rule round_number_half [OF assms(2)])

lemma x_exact:
  assumes "\<bar>i\<bar> \<le> 2 ^ 48" "\<bar>j\<bar> \<le> 2 ^ 48" "\<bar>k\<bar> \<le> 2 ^ 48"
  shows "fadd (Fin (of_int i)) (fdiv2 (fsub (Fin (of_int j)) (Fin (of_int k))))
           = Fin (of_int i + (of_int j - of_int k) / 2)"
    and "fadd (Fin (of_int i + (of_int j - of_int k) / 2)) (Fin (of_int k))
           = Fin (of_int i + (of_int j - of_int k) / 2 + of_int k)"
    and "fsub (fadd (Fin (of_int i)) (Fin (of_int j))) (Fin (of_int k))
           = Fin (of_int i + of_int j - of_int k)"
proof -
  have d: "round_number (of_int j - of_int k) = Fin (of_int j - of_int k)"
    using assms by (intro round_number_halves [where n = "2 * (j - k)"]) simp_all
  have h: "round_number ((of_int j - of_int k) / 2) = Fin ((of_int j - of_int k) / 2)"
    using assms by (intro round_number_halves [where n = "j - k"]) simp_all
  have c: "round_number (of_int i + (of_int j - of_int k) / 2)
           = Fin (of_int i + (of_int j - of_int k) / 2)"
    using assms by (intro round_number_halves [where n = "2 * i + j - k"]) (simp_all add: field_simps)
  show "fadd (Fin (of_int i)) (fdiv2 (fsub (Fin (of_int j)) (Fin (of_int k))))
           = Fin (of_int i + (of_int j - of_int k) / 2)"
    by (simp add: fsub_def d h c)
  have r: "round_number (of_int i + (of_int j - of_int k) / 2 + of_int k)
           = Fin (of_int i + (of_int j - of_int k) / 2 + of_int k)"
    using assms by (intro round_number_halves [where n = "2 * i + j + k"]) (simp_all add: field_simps)
  show "fadd (Fin (of_int i + (of_int j - of_int k) / 2)) (Fin (of_int k))
           = Fin (of_int i + (of_int j - of_int k) / 2 + of_int k)"
    by (simp add: r)
  have a: "round_number (of_int i + of_int j) = Fin (of_int i + of_int j)"
    using assms by (intro round_number_halves [where n = "2 * (i + j)"]) simp_all
  have s: "round_number (of_int i + of_int j - of_int k) = Fin (of_int i + of_int j - of_int k)"
    using assms by (intro round_number_halves [where n = "2 * (i + j - k)"]) simp_all
  show "fsub (fadd (Fin (of_int i)) (Fin (of_int j))) (Fin (of_int k))
           = Fin (of_int i + of_int j - of_int k)"
    using s by (simp add: fsub_def a)
qed

lemma y_exact:
  assumes "\<bar>i\<bar> \<le> 2 ^ 48" "\<bar>j\<bar> \<le> 2 ^ 48" "\<bar>k\<bar> \<le> 2 ^ 48" "\<bar>l\<bar> \<le> 2 ^ 48"
  shows "fadd (fadd (fadd (Fin (of_int i)) (Fin (of_int j))) (Fin (of_int k))) (Fin (of_int l))
           = Fin (of_int i + of_int j + of_int k + of_int l)"
    and "fsub (fsub (fsub (Fin (of_int i)) (Fin (of_int k))) (Fin 24)) (Fin (of_int l))
           = Fin (of_int i - of_int k - 24 - of_int l)"
proof -
  have a: "round_number (of_int i + of_int j) = Fin (of_int i + of_int j)"
    using assms by (intro round_number_halves [where n = "2 * (i + j)"]) simp_all
  have b: "round_number (of_int i + of_int j + of_int k) = Fin (of_int i + of_int j + of_int k)"
    using assms by (intro round_number_halves [where n = "2 * (i + j + k)"]) simp_all
  have c: "round_number (of_int i + of_int j + of_int k + of_int l)
           = Fin (of_int i + of_int j + of_int k + of_int l)"
    using assms by (intro round_number_halves [where n = "2 * (i + j + k + l)"]) simp_all
  show "fadd (fadd (fadd (Fin (of_int i)) (Fin (of_int j))) (Fin (of_int k))) (Fin (of_int l))
           = Fin (of_int i + of_int j + of_int k + of_int l)"
    by (simp add: a b c)
  have d: "round_number (of_int i - of_int k) = Fin (of_int i - of_int k)"
    using assms by (intro round_number_halves [where n = "2 * (i - k)"]) simp_all
  have e: "round_number (of_int i - of_int k - 24) = Fin (of_int i - of_int k - 24)"
    using assms by (intro round_number_halves [where n = "2 * (i - k - 24)"]) simp_all
  have f: "round_number (of_int i - of_int k - 24 - of_int l)
           = Fin (of_int i - of_int k - 24 - of_int l)"
    using assms by (intro round_number_halves [where n = "2 * (i - k - 24 - l)"]) simp_all
  show "fsub (fsub (fsub (Fin (of_int i)) (Fin (of_int k))) (Fin 24)) (Fin (of_int l))
           = Fin (of_int i - of_int k - 24 - of_int l)"
    using d e f by (simp add: fsub_def)
qed

lemmas scenario_defs = getTooltipXPosition_def getTooltipYPosition_def overflowRight_def
  overflowLeft_def overflowBottom_def centerDistance_def styles_tooltip_marginTop_def
  layout_state_def fsub_def fgt_def Let_def round_number_numeral

lemmas whole_defs = whole_layout_def whole_def layout_state_def

section \<open>Properties of the position calculator\<close>

text \<open>
  C5 (as amended). For every child rectangle, tooltip size and window, with every sum,
  difference and half computed in double arithmetic in the order the code computes them:
  the horizontal position is \<open>childX + childWidth - tooltipWidth\<close> when the centred value
  \<open>childX + (childWidth - tooltipWidth) / 2\<close> plus \<open>tooltipWidth\<close> exceeds the window
  width; otherwise \<open>childX\<close> when the centred value is negative; otherwise (also when a
  comparison is with NaN) the centred value. For the child at x = 150 of width 100, a
  tooltip of width 300 and a window of width 400 the centred value is 50, there is no
  right overflow and the position is 50. A centred right edge computed as exactly the
  window width is no right overflow: for the child at x = 200 the centred value is 100,
  its right edge is computed as 400 and the position is 100.
\<close>

theorem xposition_cases:
  "getTooltipXPosition st win =
     (if fgt (fadd (fadd (cl_x (childrenLayout st))
                      (fdiv2 (fsub (cl_width (childrenLayout st)) (tl_width (tooltipLayout st)))))
                (tl_width (tooltipLayout st)))
            (win_width win)
      then fsub (fadd (cl_x (childrenLayout st)) (cl_width (childrenLayout st)))
             (tl_width (tooltipLayout st))
      else if flt (fadd (cl_x (childrenLayout st))
                     (fdiv2 (fsub (cl_width (childrenLayout st)) (tl_width (tooltipLayout st)))))
                (Fin 0)
      then cl_x (childrenLayout st)
      else fadd (cl_x (childrenLayout st))
             (fdiv2 (fsub (cl_width (childrenLayout st)) (tl_width (tooltipLayout st)))))
   \<and> centerDistance (layout_state (Fin 150) cy (Fin 100) ch (Fin 300) th) = Fin 50
   \<and> \<not> overflowRight (layout_state (Fin 150) cy (Fin 100) ch (Fin 300) th)
          \<lparr>win_width = Fin 400, win_height = wh\<rparr>
          (centerDistance (layout_state (Fin 150) cy (Fin 100) ch (Fin 300) th))
   \<and> getTooltipXPosition (layout_state (Fin 150) cy (Fin 100) ch (Fin 300) th)
        \<lparr>win_width = Fin 400, win_height = wh\<rparr> = Fin 50
   \<and> fadd (centerDistance (layout_state (Fin 200) cy (Fin 100) ch (Fin 300) th)) (Fin 300)
        = Fin 400
   \<and> \<not> overflowRight (layout_state (Fin 200) cy (Fin 100) ch (Fin 300) th)
          \<lparr>win_width = Fin 400, win_height = wh\<rparr>
          (centerDistance (layout_state (Fin 200) cy (Fin 100) ch (Fin 300) th))
   \<and> getTooltipXPosition (layout_state (Fin 200) cy (Fin 100) ch (Fin 300) th)
        \<lparr>win_width = Fin 400, win_height = wh\<rparr> = Fin 100"
proof -
  have general: "getTooltipXPosition st win =
     (if fgt (fadd (fadd (cl_x (childrenLayout st))
                      (fdiv2 (fsub (cl_width (childrenLayout st)) (tl_width (tooltipLayout st)))))
                (tl_width (tooltipLayout st)))
            (win_width win)
      then fsub (fadd (cl_x (childrenLayout st)) (cl_width (childrenLayout st)))
             (tl_width (tooltipLayout st))
      else if flt (fadd (cl_x (childrenLayout st))
                     (fdiv2 (fsub (cl_width (childrenLayout st)) (tl_width (tooltipLayout st)))))
                (Fin 0)
      then cl_x (childrenLayout st)
      else fadd (cl_x (childrenLayout st))
             (fdiv2 (fsub (cl_width (childrenLayout st)) (tl_width (tooltipLayout st)))))"
    by (simp add: getTooltipXPosition_def overflowRight_def overflowLeft_def Let_def)
  show ?thesis
    by (intro conjI general) (simp_all add: scenario_defs)
qed

text \<open>
  C5 as it was stated fails. At its own scenario, the child at x = 150 of width 100 and a
  tooltip of width 300 in a window of width 400, the centred right edge is not at 400 and
  the position is not 100. And its case analysis, read in exact arithmetic, fails on
  doubles: for the child at x = 373.3 of width 28.9, a tooltip of width 211.1 and a
  window of width 493.3 (the doubles nearest to these decimals), the exact centred value
  plus the tooltip width does not exceed the window width, yet the position is the
  right-aligned 191.1, which is not the centred value.
\<close>

theorem xposition_scenario_counterexample:
  "fadd (centerDistance (layout_state (Fin 150) (Fin 0) (Fin 100) (Fin 0) (Fin 300) (Fin 0)))
     (Fin 300) \<noteq> Fin 400
   \<and> getTooltipXPosition (layout_state (Fin 150) (Fin 0) (Fin 100) (Fin 0) (Fin 300) (Fin 0))
        \<lparr>win_width = Fin 400, win_height = Fin 800\<rparr> \<noteq> Fin 100
   \<and> is_double (dbl (3733 / 10))
   \<and> is_double (dbl (289 / 10))
   \<and> is_double (dbl (2111 / 10))
   \<and> is_double (dbl (4933 / 10))
   \<and> val (dbl (3733 / 10)) + (val (dbl (289 / 10)) - val (dbl (2111 / 10))) / 2 + val (dbl (2111 / 10)) \<le> val (dbl (4933 / 10))
   \<and> getTooltipXPosition (layout_state (dbl (3733 / 10)) (Fin 0) (dbl (289 / 10)) (Fin 0) (dbl (2111 / 10)) (Fin 0))
        \<lparr>win_width = dbl (4933 / 10), win_height = Fin 800\<rparr> = dbl (1911 / 10)
   \<and> val (dbl (1911 / 10)) \<noteq> val (dbl (3733 / 10)) + (val (dbl (289 / 10)) - val (dbl (2111 / 10))) / 2"
proof -
  have l1: "dbl (3733 / 10) = Fin (6567163050380493 / 2 ^ 44)"
    unfolding dbl_def
    by (rule round_number_eval [where e = "8"]) (simp_all add: rne_def Let_def)
  have d1: "is_double (dbl (3733 / 10))"
    unfolding l1 is_double_def number.case
    by (rule round_number_eval [where e = "8"]) (simp_all add: rne_def Let_def)
  have l2: "dbl (289 / 10) = Fin (4067313413468979 / 2 ^ 47)"
    unfolding dbl_def
    by (rule round_number_eval [where e = "4"]) (simp_all add: rne_def Let_def)
  have d2: "is_double (dbl (289 / 10))"
    unfolding l2 is_double_def number.case
    by (rule round_number_eval [where e = "4"]) (simp_all add: rne_def Let_def)
  have l3: "dbl (2111 / 10) = Fin (7427420947952435 / 2 ^ 45)"
    unfolding dbl_def
    by (rule round_number_eval [where e = "7"]) (simp_all add: rne_def Let_def)
  have d3: "is_double (dbl (2111 / 10))"
    unfolding l3 is_double_def number.case
    by (rule round_number_eval [where e = "7"]) (simp_all add: rne_def Let_def)
  have l4: "dbl (4933 / 10) = Fin (8678225375710413 / 2 ^ 44)"
    unfolding dbl_def
    by (rule round_number_eval [where e = "8"]) (simp_all add: rne_def Let_def)
  have d4: "is_double (dbl (4933 / 10))"
    unfolding l4 is_double_def number.case
    by (rule round_number_eval [where e = "8"]) (simp_all add: rne_def Let_def)
  have l5: "dbl (1911 / 10) = Fin (6723733506175795 / 2 ^ 45)"
    unfolding dbl_def
    by (rule round_number_eval [where e = "7"]) (simp_all add: rne_def Let_def)
  have d5: "is_double (dbl (1911 / 10))"
    unfolding l5 is_double_def number.case
    by (rule round_number_eval [where e = "7"]) (simp_all add: rne_def Let_def)
  have s1: "fsub (Fin (4067313413468979 / 2 ^ 47)) (Fin (7427420947952435 / 2 ^ 45)) = Fin (- (3205296297292595 / 2 ^ 44))"
    unfolding fsub_def fneg.simps fadd.simps fdiv2.simps
    by (rule round_number_eval [where e = "7"]) (simp_all add: rne_def Let_def)
  have s2: "fdiv2 (Fin (- (3205296297292595 / 2 ^ 44))) = Fin (- (3205296297292595 / 2 ^ 45))"
    unfolding fsub_def fneg.simps fadd.simps fdiv2.simps
    by (rule round_number_eval [where e = "6"]) (simp_all add: rne_def Let_def)
  have s3: "fadd (Fin (6567163050380493 / 2 ^ 44)) (Fin (- (3205296297292595 / 2 ^ 45))) = Fin (1241128725433549 / 2 ^ 42)"
    unfolding fsub_def fneg.simps fadd.simps fdiv2.simps
    by (rule round_number_eval [where e = "8"]) (simp_all add: rne_def Let_def)
  have s4: "fadd (Fin (1241128725433549 / 2 ^ 42)) (Fin (7427420947952435 / 2 ^ 45)) = Fin (4339112687855207 / 2 ^ 43)"
    unfolding fsub_def fneg.simps fadd.simps fdiv2.simps
    by (rule round_number_eval [where e = "8"]) (simp_all add: rne_def Let_def)
  have s5: "fadd (Fin (6567163050380493 / 2 ^ 44)) (Fin (4067313413468979 / 2 ^ 47)) = Fin (7075577227064115 / 2 ^ 44)"
    unfolding fsub_def fneg.simps fadd.simps fdiv2.simps
    by (rule round_number_eval [where e = "8"]) (simp_all add: rne_def Let_def)
  have s6: "fsub (Fin (7075577227064115 / 2 ^ 44)) (Fin (7427420947952435 / 2 ^ 45)) = Fin (6723733506175795 / 2 ^ 45)"
    unfolding fsub_def fneg.simps fadd.simps fdiv2.simps
    by (rule round_number_eval [where e = "7"]) (simp_all add: rne_def Let_def)
  have over: "fgt (Fin (4339112687855207 / 2 ^ 43)) (Fin (8678225375710413 / 2 ^ 44))"
    by (simp add: fgt_def)
  have pos: "getTooltipXPosition (layout_state (dbl (3733 / 10)) (Fin 0) (dbl (289 / 10)) (Fin 0) (dbl (2111 / 10)) (Fin 0))
        \<lparr>win_width = dbl (4933 / 10), win_height = Fin 800\<rparr> = dbl (1911 / 10)"
    unfolding getTooltipXPosition_def overflowRight_def Let_def layout_state_def
    by (simp only: ChildRect.select_convs TooltipRect.select_convs State.select_convs Window.select_convs l1 l2 l3 l4 l5 s1 s2 s3 s4 s5 s6 over if_True)
  have exact: "val (dbl (3733 / 10)) + (val (dbl (289 / 10)) - val (dbl (2111 / 10))) / 2 + val (dbl (2111 / 10)) \<le> val (dbl (4933 / 10))"
    unfolding l1 l2 l3 l4 l5 val_def by simp
  have scenario: "fadd (centerDistance (layout_state (Fin 150) (Fin 0) (Fin 100) (Fin 0) (Fin 300) (Fin 0)))
     (Fin 300) \<noteq> Fin 400
   \<and> getTooltipXPosition (layout_state (Fin 150) (Fin 0) (Fin 100) (Fin 0) (Fin 300) (Fin 0))
        \<lparr>win_width = Fin 400, win_height = Fin 800\<rparr> \<noteq> Fin 100"
    by (simp add: scenario_defs)
  have other: "val (dbl (1911 / 10)) \<noteq> val (dbl (3733 / 10)) + (val (dbl (289 / 10)) - val (dbl (2111 / 10))) / 2"
    unfolding l1 l2 l3 l4 l5 val_def by simp
  show ?thesis
    using scenario d1 d2 d3 d4 exact pos other by (intro conjI) simp_all
qed

text \<open>
  C6 (as amended). Where the centred horizontal position, as the code computes it in
  double arithmetic, is negative, and the sum of it and the tooltip width, as the code
  computes it, does not exceed the window width, the horizontal position is \<open>childX\<close>.
\<close>

theorem xposition_negative_center:
  assumes "flt (centerDistance st) (Fin 0)"
    and "\<not> fgt (fadd (centerDistance st) (tl_width (tooltipLayout st))) (win_width win)"
  shows "getTooltipXPosition st win = cl_x (childrenLayout st)"
  using assms
  by (simp add: getTooltipXPosition_def overflowRight_def overflowLeft_def centerDistance_def
      Let_def)

text \<open>
  The scenario of C6: child at x = 10 of width 20, tooltip of width 300, window of width
  400; the centred value is -130 and the position is 10.
\<close>

theorem xposition_negative_center_witness:
  "centerDistance (layout_state (Fin 10) (Fin 0) (Fin 20) (Fin 0) (Fin 300) (Fin 0)) = Fin (- 130)
   \<and> getTooltipXPosition (layout_state (Fin 10) (Fin 0) (Fin 20) (Fin 0) (Fin 300) (Fin 0))
        \<lparr>win_width = Fin 400, win_height = Fin 800\<rparr> = Fin 10"
proof -
  let ?st = "layout_state (Fin 10) (Fin 0) (Fin 20) (Fin 0) (Fin 300) (Fin 0)"
  let ?win = "\<lparr>win_width = Fin 400, win_height = Fin 800\<rparr>"
  have c: "centerDistance ?st = Fin (- 130)"
    by (simp add: scenario_defs)
  have neg: "flt (centerDistance ?st) (Fin 0)"
    unfolding c by simp
  have fits: "\<not> fgt (fadd (centerDistance ?st) (tl_width (tooltipLayout ?st))) (win_width ?win)"
    unfolding c by (simp add: scenario_defs)
  have "getTooltipXPosition ?st ?win = cl_x (childrenLayout ?st)"
    using xposition_negative_center [OF neg fits] .
  then show ?thesis
    using c by (simp add: layout_state_def)
qed

text \<open>
  C6 as it was stated fails when the centred position also overflows to the right, which
  is tested first: in a window of width 100 the child at x = 10 of width 20 and the
  tooltip of width 300 have the negative centred value -130 and the position -270, not
  \<open>childX\<close> = 10. The right overflow is the one the code computes: for the child at
  x = 21.2 of width 30.1, a tooltip of width 296.3 and a window of width 184.4 (the
  doubles nearest to these decimals) the exact centred value is negative and the exact
  centred right edge is inside the window, yet the position is -245, not \<open>childX\<close>.
\<close>

theorem xposition_negative_center_counterexample:
  "flt (centerDistance (layout_state (Fin 10) (Fin 0) (Fin 20) (Fin 0) (Fin 300) (Fin 0))) (Fin 0)
   \<and> getTooltipXPosition (layout_state (Fin 10) (Fin 0) (Fin 20) (Fin 0) (Fin 300) (Fin 0))
        \<lparr>win_width = Fin 100, win_height = Fin 800\<rparr> = Fin (- 270)
   \<and> getTooltipXPosition (layout_state (Fin 10) (Fin 0) (Fin 20) (Fin 0) (Fin 300) (Fin 0))
        \<lparr>win_width = Fin 100, win_height = Fin 800\<rparr>
        \<noteq> cl_x (childrenLayout (layout_state (Fin 10) (Fin 0) (Fin 20) (Fin 0) (Fin 300) (Fin 0)))
   \<and> is_double (dbl (212 / 10))
   \<and> is_double (dbl (301 / 10))
   \<and> is_double (dbl (2963 / 10))
   \<and> is_double (dbl (1844 / 10))
   \<and> val (dbl (212 / 10)) + (val (dbl (301 / 10)) - val (dbl (2963 / 10))) / 2 < 0
   \<and> val (dbl (212 / 10)) + (val (dbl (301 / 10)) - val (dbl (2963 / 10))) / 2 + val (dbl (2963 / 10)) \<le> val (dbl (1844 / 10))
   \<and> getTooltipXPosition (layout_state (dbl (212 / 10)) (Fin 0) (dbl (301 / 10)) (Fin 0) (dbl (2963 / 10)) (Fin 0))
        \<lparr>win_width = dbl (1844 / 10), win_height = Fin 800\<rparr> = Fin (- 245)
   \<and> Fin (- 245) \<noteq> dbl (212 / 10)"
proof -
  have l1: "dbl (212 / 10) = Fin (5967269506265907 / 2 ^ 48)"
    unfolding dbl_def
    by (rule round_number_eval [where e = "4"]) (simp_all add: rne_def Let_def)
  have d1: "is_double (dbl (212 / 10))"
    unfolding l1 is_double_def number.case
    by (rule round_number_eval [where e = "4"]) (simp_all add: rne_def Let_def)
  have l2: "dbl (301 / 10) = Fin (4236198399495373 / 2 ^ 47)"
    unfolding dbl_def
    by (rule round_number_eval [where e = "4"]) (simp_all add: rne_def Let_def)
  have d2: "is_double (dbl (301 / 10))"
    unfolding l2 is_double_def number.case
    by (rule round_number_eval [where e = "4"]) (simp_all add: rne_def Let_def)
  have l3: "dbl (2963 / 10) = Fin (5212564724960461 / 2 ^ 44)"
    unfolding dbl_def
    by (rule round_number_eval [where e = "8"]) (simp_all add: rne_def Let_def)
  have d3: "is_double (dbl (2963 / 10))"
    unfolding l3 is_double_def number.case
    by (rule round_number_eval [where e = "8"]) (simp_all add: rne_def Let_def)
  have l4: "dbl (1844 / 10) = Fin (6487998213180621 / 2 ^ 45)"
    unfolding dbl_def
    by (rule round_number_eval [where e = "7"]) (simp_all add: rne_def Let_def)
  have d4: "is_double (dbl (1844 / 10))"
    unfolding l4 is_double_def number.case
    by (rule round_number_eval [where e = "7"]) (simp_all add: rne_def Let_def)
  have s1: "fsub (Fin (4236198399495373 / 2 ^ 47)) (Fin (5212564724960461 / 2 ^ 44)) = Fin (- (4683039925023539 / 2 ^ 44))"
    unfolding fsub_def fneg.simps fadd.simps fdiv2.simps
    by (rule round_number_eval [where e = "8"]) (simp_all add: rne_def Let_def)
  have s2: "fdiv2 (Fin (- (4683039925023539 / 2 ^ 44))) = Fin (- (4683039925023539 / 2 ^ 45))"
    unfolding fsub_def fneg.simps fadd.simps fdiv2.simps
    by (rule round_number_eval [where e = "7"]) (simp_all add: rne_def Let_def)
  have s3: "fadd (Fin (5967269506265907 / 2 ^ 48)) (Fin (- (4683039925023539 / 2 ^ 45))) = Fin (- (7874262473480601 / 2 ^ 46))"
    unfolding fsub_def fneg.simps fadd.simps fdiv2.simps
    by (rule round_number_eval [where e = "6"]) (simp_all add: rne_def Let_def)
  have s4: "fadd (Fin (- (7874262473480601 / 2 ^ 46))) (Fin (5212564724960461 / 2 ^ 44)) = Fin (3243999106590311 / 2 ^ 44)"
    unfolding fsub_def fneg.simps fadd.simps fdiv2.simps
    by (rule round_number_eval [where e = "7"]) (simp_all add: rne_def Let_def)
  have s5: "fadd (Fin (5967269506265907 / 2 ^ 48)) (Fin (4236198399495373 / 2 ^ 47)) = Fin (3609916576314163 / 2 ^ 46)"
    unfolding fsub_def fneg.simps fadd.simps fdiv2.simps
    by (rule round_number_eval [where e = "5"]) (simp_all add: rne_def Let_def)
  have s6: "fsub (Fin (3609916576314163 / 2 ^ 46)) (Fin (5212564724960461 / 2 ^ 44)) = Fin (- 245)"
    unfolding fsub_def fneg.simps fadd.simps fdiv2.simps
    by (rule round_number_eval [where e = "7"]) (simp_all add: rne_def Let_def)
  have over: "fgt (Fin (3243999106590311 / 2 ^ 44)) (Fin (6487998213180621 / 2 ^ 45))"
    by (simp add: fgt_def)
  have pos: "getTooltipXPosition (layout_state (dbl (212 / 10)) (Fin 0) (dbl (301 / 10)) (Fin 0) (dbl (2963 / 10)) (Fin 0))
        \<lparr>win_width = dbl (1844 / 10), win_height = Fin 800\<rparr> = Fin (- 245)"
    unfolding getTooltipXPosition_def overflowRight_def Let_def layout_state_def
    by (simp only: ChildRect.select_convs TooltipRect.select_convs State.select_convs Window.select_convs l1 l2 l3 l4 s1 s2 s3 s4 s5 s6 over if_True)
  have exact: "val (dbl (212 / 10)) + (val (dbl (301 / 10)) - val (dbl (2963 / 10))) / 2 + val (dbl (2963 / 10)) \<le> val (dbl (1844 / 10))"
    unfolding l1 l2 l3 l4 val_def by simp
  have scenario: "flt (centerDistance (layout_state (Fin 10) (Fin 0) (Fin 20) (Fin 0) (Fin 300) (Fin 0))) (Fin 0)
   \<and> getTooltipXPosition (layout_state (Fin 10) (Fin 0) (Fin 20) (Fin 0) (Fin 300) (Fin 0))
        \<lparr>win_width = Fin 100, win_height = Fin 800\<rparr> = Fin (- 270)
   \<and> getTooltipXPosition (layout_state (Fin 10) (Fin 0) (Fin 20) (Fin 0) (Fin 300) (Fin 0))
        \<lparr>win_width = Fin 100, win_height = Fin 800\<rparr>
        \<noteq> cl_x (childrenLayout (layout_state (Fin 10) (Fin 0) (Fin 20) (Fin 0) (Fin 300) (Fin 0)))"
    by (simp add: scenario_defs)
  have neg: "val (dbl (212 / 10)) + (val (dbl (301 / 10)) - val (dbl (2963 / 10))) / 2 < 0"
    unfolding l1 l2 l3 l4 val_def by simp
  have other: "Fin (- 245) \<noteq> dbl (212 / 10)"
    unfolding l1 by simp
  show ?thesis
    using scenario d1 d2 d3 d4 neg exact pos other
    by (intro conjI) (simp_all add: layout_state_def)
qed

text \<open>
  C7 (as amended). For every child rectangle, tooltip size, window and status-bar offset:
  if the sum \<open>childY + childHeight + tooltipHeight + statusBarOffset\<close>, added from left to
  right in double arithmetic, exceeds the window height, the vertical position is
  \<open>childY - tooltipHeight - marginTop - statusBarOffset\<close>, subtracted from left to right in
  double arithmetic, where \<open>marginTop\<close> is 24; otherwise (the computed sum does not exceed
  the window height, or the comparison is with NaN) it is \<open>childY + tooltipHeight\<close>.
\<close>

theorem yposition_cases:
  "getTooltipYPosition sb st win =
     (if fgt (fadd (fadd (fadd (cl_y (childrenLayout st)) (cl_height (childrenLayout st)))
                      (tl_height (tooltipLayout st)))
                sb)
            (win_height win)
      then fsub (fsub (fsub (cl_y (childrenLayout st)) (tl_height (tooltipLayout st)))
                   styles_tooltip_marginTop)
             sb
      else fadd (cl_y (childrenLayout st)) (tl_height (tooltipLayout st)))
   \<and> styles_tooltip_marginTop = Fin 24"
  by (simp add: getTooltipYPosition_def overflowBottom_def styles_tooltip_marginTop_def Let_def)

text \<open>
  C7 as it was stated, with the sum read in exact arithmetic, fails on doubles: for the
  child of height 100.4 at y = 205.8, a tooltip of height 19.8, a status-bar offset of 23.6
  and a window of height 349.6 (the doubles nearest to these decimals) the exact sum does
  not exceed the window height, yet the position is the flipped 138.4, not
  \<open>childY + tooltipHeight\<close>.
\<close>

theorem yposition_rounding_counterexample:
  "is_double (dbl (2058 / 10))
   \<and> is_double (dbl (1004 / 10))
   \<and> is_double (dbl (198 / 10))
   \<and> is_double (dbl (236 / 10))
   \<and> is_double (dbl (3496 / 10))
   \<and> val (dbl (2058 / 10)) + val (dbl (1004 / 10)) + val (dbl (198 / 10)) + val (dbl (236 / 10)) \<le> val (dbl (3496 / 10))
   \<and> getTooltipYPosition (dbl (236 / 10)) (layout_state (Fin 0) (dbl (2058 / 10)) (Fin 0) (dbl (1004 / 10)) (Fin 0) (dbl (198 / 10)))
        \<lparr>win_width = Fin 400, win_height = dbl (3496 / 10)\<rparr> = dbl (1384 / 10)
   \<and> dbl (1384 / 10) \<noteq> fadd (dbl (2058 / 10)) (dbl (198 / 10))"
proof -
  have l1: "dbl (2058 / 10) = Fin (3620471887940813 / 2 ^ 44)"
    unfolding dbl_def
    by (rule round_number_eval [where e = "7"]) (simp_all add: rne_def Let_def)
  have d1: "is_double (dbl (2058 / 10))"
    unfolding l1 is_double_def number.case
    by (rule round_number_eval [where e = "7"]) (simp_all add: rne_def Let_def)
  have l2: "dbl (1004 / 10) = Fin (3532510957718733 / 2 ^ 45)"
    unfolding dbl_def
    by (rule round_number_eval [where e = "6"]) (simp_all add: rne_def Let_def)
  have d2: "is_double (dbl (1004 / 10))"
    unfolding l2 is_double_def number.case
    by (rule round_number_eval [where e = "6"]) (simp_all add: rne_def Let_def)
  have l3: "dbl (198 / 10) = Fin (5573204538870989 / 2 ^ 48)"
    unfolding dbl_def
    by (rule round_number_eval [where e = "4"]) (simp_all add: rne_def Let_def)
  have d3: "is_double (dbl (198 / 10))"
    unfolding l3 is_double_def number.case
    by (rule round_number_eval [where e = "4"]) (simp_all add: rne_def Let_def)
  have l4: "dbl (236 / 10) = Fin (3321404725185741 / 2 ^ 47)"
    unfolding dbl_def
    by (rule round_number_eval [where e = "4"]) (simp_all add: rne_def Let_def)
  have d4: "is_double (dbl (236 / 10))"
    unfolding l4 is_double_def number.case
    by (rule round_number_eval [where e = "4"]) (simp_all add: rne_def Let_def)
  have l5: "dbl (3496 / 10) = Fin (3075114120563917 / 2 ^ 43)"
    unfolding dbl_def
    by (rule round_number_eval [where e = "8"]) (simp_all add: rne_def Let_def)
  have d5: "is_double (dbl (3496 / 10))"
    unfolding l5 is_double_def number.case
    by (rule round_number_eval [where e = "8"]) (simp_all add: rne_def Let_def)
  have l6: "dbl (1384 / 10) = Fin (4869517097094349 / 2 ^ 45)"
    unfolding dbl_def
    by (rule round_number_eval [where e = "7"]) (simp_all add: rne_def Let_def)
  have d6: "is_double (dbl (1384 / 10))"
    unfolding l6 is_double_def number.case
    by (rule round_number_eval [where e = "7"]) (simp_all add: rne_def Let_def)
  have s1: "fadd (Fin (3620471887940813 / 2 ^ 44)) (Fin (3532510957718733 / 2 ^ 45)) = Fin (1346681841700045 / 2 ^ 42)"
    unfolding fsub_def fneg.simps fadd.simps fdiv2.simps
    by (rule round_number_eval [where e = "8"]) (simp_all add: rne_def Let_def)
  have s2: "fadd (Fin (1346681841700045 / 2 ^ 42)) (Fin (5573204538870989 / 2 ^ 48)) = Fin (5735052650479617 / 2 ^ 44)"
    unfolding fsub_def fneg.simps fadd.simps fdiv2.simps
    by (rule round_number_eval [where e = "8"]) (simp_all add: rne_def Let_def)
  have s3: "fadd (Fin (5735052650479617 / 2 ^ 44)) (Fin (3321404725185741 / 2 ^ 47)) = Fin (6150228241127835 / 2 ^ 44)"
    unfolding fsub_def fneg.simps fadd.simps fdiv2.simps
    by (rule round_number_eval [where e = "8"]) (simp_all add: rne_def Let_def)
  have s4: "fsub (Fin (3620471887940813 / 2 ^ 44)) (Fin (5573204538870989 / 2 ^ 48)) = Fin 186"
    unfolding fsub_def fneg.simps fadd.simps fdiv2.simps
    by (rule round_number_eval [where e = "7"]) (simp_all add: rne_def Let_def)
  have s5: "fsub (Fin 186) (Fin 24) = Fin 162"
    unfolding fsub_def fneg.simps fadd.simps fdiv2.simps
    by (rule round_number_eval [where e = "7"]) (simp_all add: rne_def Let_def)
  have s6: "fsub (Fin 162) (Fin (3321404725185741 / 2 ^ 47)) = Fin (4869517097094349 / 2 ^ 45)"
    unfolding fsub_def fneg.simps fadd.simps fdiv2.simps
    by (rule round_number_eval [where e = "7"]) (simp_all add: rne_def Let_def)
  have s7: "fadd (Fin (3620471887940813 / 2 ^ 44)) (Fin (5573204538870989 / 2 ^ 48)) = Fin (1984398585810125 / 2 ^ 43)"
    unfolding fsub_def fneg.simps fadd.simps fdiv2.simps
    by (rule round_number_eval [where e = "7"]) (simp_all add: rne_def Let_def)
  have over: "fgt (Fin (6150228241127835 / 2 ^ 44)) (Fin (3075114120563917 / 2 ^ 43))"
    by (simp add: fgt_def)
  have pos: "getTooltipYPosition (dbl (236 / 10)) (layout_state (Fin 0) (dbl (2058 / 10)) (Fin 0) (dbl (1004 / 10)) (Fin 0) (dbl (198 / 10)))
        \<lparr>win_width = Fin 400, win_height = dbl (3496 / 10)\<rparr> = dbl (1384 / 10)"
    unfolding getTooltipYPosition_def overflowBottom_def styles_tooltip_marginTop_def Let_def
      layout_state_def
    by (simp only: ChildRect.select_convs TooltipRect.select_convs State.select_convs Window.select_convs l1 l2 l3 l4 l5 l6 s1 s2 s3 s4 s5 s6 over if_True)
  have exact: "val (dbl (2058 / 10)) + val (dbl (1004 / 10)) + val (dbl (198 / 10)) + val (dbl (236 / 10)) \<le> val (dbl (3496 / 10))"
    unfolding l1 l2 l3 l4 l5 l6 val_def by simp
  have other: "dbl (1384 / 10) \<noteq> fadd (dbl (2058 / 10)) (dbl (198 / 10))"
    unfolding l6 l1 l3 s7 by simp
  show ?thesis
    using d1 d2 d3 d4 d5 exact pos other by (intro conjI) simp_all
qed

text \<open>
  C4 (as amended). When the rectangles, the window and the status-bar offset are whole
  numbers of at most \<open>2\<^sup>4\<^sup>8\<close> in magnitude, the position is finite and the tooltip is kept
  inside the window on the side the chosen placement looks after. When the centred
  position neither overflows to the right nor is negative, the left and right edges are
  inside the window. When it overflows to the right, the right edge of the tooltip is
  inside provided the right edge of the child is. When it does not but is negative, the
  left edge is inside provided \<open>childX\<close> is not negative. When the tooltip is placed above
  the child, its bottom edge is inside provided the status-bar offset is not negative
  and \<open>childY\<close> is inside.
\<close>

theorem tooltip_edges:
  assumes "whole_layout sb st win"
  shows "finite_number (getTooltipXPosition st win)
   \<and> finite_number (getTooltipYPosition sb st win)
   \<and> (\<not> overflowRight st win (centerDistance st) \<and> \<not> overflowLeft (centerDistance st)
      \<longrightarrow> 0 \<le> val (getTooltipXPosition st win)
          \<and> val (getTooltipXPosition st win) + val (tl_width (tooltipLayout st))
                \<le> val (win_width win))
   \<and> (overflowRight st win (centerDistance st)
        \<and> val (cl_x (childrenLayout st)) + val (cl_width (childrenLayout st))
              \<le> val (win_width win)
      \<longrightarrow> val (getTooltipXPosition st win) + val (tl_width (tooltipLayout st))
            \<le> val (win_width win))
   \<and> (\<not> overflowRight st win (centerDistance st) \<and> overflowLeft (centerDistance st)
        \<and> 0 \<le> val (cl_x (childrenLayout st))
      \<longrightarrow> 0 \<le> val (getTooltipXPosition st win))
   \<and> (overflowBottom sb st win \<and> 0 \<le> val sb
        \<and> val (cl_y (childrenLayout st)) \<le> val (win_height win)
      \<longrightarrow> val (getTooltipYPosition sb st win) + val (tl_height (tooltipLayout st))
            \<le> val (win_height win))"
proof -
  from assms obtain x where x: "cl_x (childrenLayout st) = Fin (of_int x)" "\<bar>x\<bar> \<le> 2 ^ 48"
    by (auto simp: whole_layout_def elim: wholeE)
  from assms obtain y where y: "cl_y (childrenLayout st) = Fin (of_int y)" "\<bar>y\<bar> \<le> 2 ^ 48"
    by (auto simp: whole_layout_def elim: wholeE)
  from assms obtain cw where cw: "cl_width (childrenLayout st) = Fin (of_int cw)" "\<bar>cw\<bar> \<le> 2 ^ 48"
    by (auto simp: whole_layout_def elim: wholeE)
  from assms obtain ch where ch: "cl_height (childrenLayout st) = Fin (of_int ch)" "\<bar>ch\<bar> \<le> 2 ^ 48"
    by (auto simp: whole_layout_def elim: wholeE)
  from assms obtain tw where tw: "tl_width (tooltipLayout st) = Fin (of_int tw)" "\<bar>tw\<bar> \<le> 2 ^ 48"
    by (auto simp: whole_layout_def elim: wholeE)
  from assms obtain th where th: "tl_height (tooltipLayout st) = Fin (of_int th)" "\<bar>th\<bar> \<le> 2 ^ 48"
    by (auto simp: whole_layout_def elim: wholeE)
  from assms obtain W where W: "win_width win = Fin (of_int W)" "\<bar>W\<bar> \<le> 2 ^ 48"
    by (auto simp: whole_layout_def elim: wholeE)
  from assms obtain H where H: "win_height win = Fin (of_int H)" "\<bar>H\<bar> \<le> 2 ^ 48"
    by (auto simp: whole_layout_def elim: wholeE)
  from assms obtain s where s: "sb = Fin (of_int s)" "\<bar>s\<bar> \<le> 2 ^ 48"
    by (auto simp: whole_layout_def elim: wholeE)
  note xe = x_exact [OF x(2) cw(2) tw(2)]
  note ye = y_exact [OF y(2) ch(2) th(2) s(2)]
  have c: "centerDistance st = Fin (of_int x + (of_int cw - of_int tw) / 2)"
    by (simp only: centerDistance_def x(1) cw(1) tw(1) xe(1))
  have X: "getTooltipXPosition st win =
      (if of_int W < of_int x + (of_int cw - of_int tw) / 2 + (of_int tw :: real)
       then Fin (of_int x + of_int cw - of_int tw)
       else if of_int x + (of_int cw - of_int tw) / 2 < (0 :: real) then Fin (of_int x)
       else Fin (of_int x + (of_int cw - of_int tw) / 2))"
    unfolding getTooltipXPosition_def overflowRight_def overflowLeft_def Let_def
    by (simp only: x(1) cw(1) tw(1) W(1) xe fgt_def flt.simps)
  have R: "overflowRight st win (centerDistance st)
      = (of_int W < of_int x + (of_int cw - of_int tw) / 2 + (of_int tw :: real))"
    unfolding overflowRight_def Let_def c
    by (simp only: tw(1) W(1) xe fgt_def flt.simps)
  have L: "overflowLeft (centerDistance st) = (of_int x + (of_int cw - of_int tw) / 2 < (0 :: real))"
    unfolding overflowLeft_def c by simp
  have B: "overflowBottom sb st win
      = (of_int H < of_int y + of_int ch + of_int th + (of_int s :: real))"
    unfolding overflowBottom_def Let_def
    by (simp only: y(1) ch(1) th(1) s(1) H(1) ye fgt_def flt.simps)
  have Y: "overflowBottom sb st win \<Longrightarrow>
      getTooltipYPosition sb st win = Fin (of_int y - of_int th - 24 - of_int s)"
    unfolding getTooltipYPosition_def Let_def styles_tooltip_marginTop_def
    by (simp only: y(1) th(1) s(1) ye if_True)
  have a: "round_number (of_int y + of_int th) = Fin (of_int y + of_int th)"
    using y(2) th(2) by (intro round_number_halves [where n = "2 * (y + th)"]) simp_all
  have Y': "\<not> overflowBottom sb st win \<Longrightarrow>
      getTooltipYPosition sb st win = Fin (of_int y + of_int th)"
    unfolding getTooltipYPosition_def Let_def
    by (simp add: y(1) th(1) a)
  have fx: "finite_number (getTooltipXPosition st win)"
    unfolding X by (simp add: finite_number_def)
  have fy: "finite_number (getTooltipYPosition sb st win)"
    using Y Y' by (cases "overflowBottom sb st win") (simp_all add: finite_number_def)
  have h: "(\<not> overflowRight st win (centerDistance st) \<and> \<not> overflowLeft (centerDistance st)
      \<longrightarrow> 0 \<le> val (getTooltipXPosition st win)
          \<and> val (getTooltipXPosition st win) + val (tl_width (tooltipLayout st))
                \<le> val (win_width win))
   \<and> (overflowRight st win (centerDistance st)
        \<and> val (cl_x (childrenLayout st)) + val (cl_width (childrenLayout st))
              \<le> val (win_width win)
      \<longrightarrow> val (getTooltipXPosition st win) + val (tl_width (tooltipLayout st))
            \<le> val (win_width win))
   \<and> (\<not> overflowRight st win (centerDistance st) \<and> overflowLeft (centerDistance st)
        \<and> 0 \<le> val (cl_x (childrenLayout st))
      \<longrightarrow> 0 \<le> val (getTooltipXPosition st win))"
    unfolding R L X by (simp add: x(1) cw(1) tw(1) W(1) val_def)
  have v: "overflowBottom sb st win \<and> 0 \<le> val sb
        \<and> val (cl_y (childrenLayout st)) \<le> val (win_height win)
      \<longrightarrow> val (getTooltipYPosition sb st win) + val (tl_height (tooltipLayout st))
            \<le> val (win_height win)"
    using Y by (auto simp: y(1) th(1) s(1) H(1) val_def)
  show ?thesis
    using fx fy h v by blast
qed

text \<open>
  The four cases of C4 as amended, each at an input of its own in a window of 400 by 760
  with a status-bar offset of 20: a centred tooltip, one aligned with the right edge of
  the child, one aligned with its left edge, and one placed above the child.
\<close>

theorem tooltip_edges_witness:
  "(0 \<le> val (getTooltipXPosition (layout_state (Fin 150) (Fin 0) (Fin 100) (Fin 0) (Fin 300) (Fin 0))
               \<lparr>win_width = Fin 400, win_height = Fin 760\<rparr>)
    \<and> val (getTooltipXPosition (layout_state (Fin 150) (Fin 0) (Fin 100) (Fin 0) (Fin 300) (Fin 0))
               \<lparr>win_width = Fin 400, win_height = Fin 760\<rparr>) + 300 \<le> 400)
   \<and> (overflowRight (layout_state (Fin 350) (Fin 0) (Fin 40) (Fin 0) (Fin 300) (Fin 0))
         \<lparr>win_width = Fin 400, win_height = Fin 760\<rparr>
         (centerDistance (layout_state (Fin 350) (Fin 0) (Fin 40) (Fin 0) (Fin 300) (Fin 0)))
      \<and> val (getTooltipXPosition (layout_state (Fin 350) (Fin 0) (Fin 40) (Fin 0) (Fin 300) (Fin 0))
               \<lparr>win_width = Fin 400, win_height = Fin 760\<rparr>) + 300 \<le> 400)
   \<and> (overflowLeft (centerDistance (layout_state (Fin 10) (Fin 0) (Fin 20) (Fin 0) (Fin 300) (Fin 0)))
      \<and> 0 \<le> val (getTooltipXPosition (layout_state (Fin 10) (Fin 0) (Fin 20) (Fin 0) (Fin 300) (Fin 0))
                   \<lparr>win_width = Fin 400, win_height = Fin 760\<rparr>))
   \<and> (overflowBottom (Fin 20) (layout_state (Fin 0) (Fin 700) (Fin 0) (Fin 50) (Fin 0) (Fin 30))
         \<lparr>win_width = Fin 400, win_height = Fin 760\<rparr>
      \<and> val (getTooltipYPosition (Fin 20)
               (layout_state (Fin 0) (Fin 700) (Fin 0) (Fin 50) (Fin 0) (Fin 30))
               \<lparr>win_width = Fin 400, win_height = Fin 760\<rparr>) + 30 \<le> 760)"
proof -
  let ?win = "\<lparr>win_width = Fin 400, win_height = Fin 760\<rparr>"
  let ?a = "layout_state (Fin 150) (Fin 0) (Fin 100) (Fin 0) (Fin 300) (Fin 0)"
  let ?b = "layout_state (Fin 350) (Fin 0) (Fin 40) (Fin 0) (Fin 300) (Fin 0)"
  let ?c = "layout_state (Fin 10) (Fin 0) (Fin 20) (Fin 0) (Fin 300) (Fin 0)"
  let ?e = "layout_state (Fin 0) (Fin 700) (Fin 0) (Fin 50) (Fin 0) (Fin 30)"
  have wa: "whole_layout (Fin 20) ?a ?win" and wb: "whole_layout (Fin 20) ?b ?win"
    and wc: "whole_layout (Fin 20) ?c ?win" and we: "whole_layout (Fin 20) ?e ?win"
    by (simp_all add: whole_defs)
  have ha: "\<not> overflowRight ?a ?win (centerDistance ?a) \<and> \<not> overflowLeft (centerDistance ?a)"
    by (simp add: scenario_defs)
  have hb: "overflowRight ?b ?win (centerDistance ?b)
            \<and> val (cl_x (childrenLayout ?b)) + val (cl_width (childrenLayout ?b))
                  \<le> val (win_width ?win)"
    by (simp add: scenario_defs val_def)
  have hc: "\<not> overflowRight ?c ?win (centerDistance ?c) \<and> overflowLeft (centerDistance ?c)
            \<and> 0 \<le> val (cl_x (childrenLayout ?c))"
    by (simp add: scenario_defs val_def)
  have he: "overflowBottom (Fin 20) ?e ?win \<and> 0 \<le> val (Fin 20)
            \<and> val (cl_y (childrenLayout ?e)) \<le> val (win_height ?win)"
    by (simp add: scenario_defs val_def)
  have ra: "0 \<le> val (getTooltipXPosition ?a ?win)
            \<and> val (getTooltipXPosition ?a ?win) + val (tl_width (tooltipLayout ?a))
                  \<le> val (win_width ?win)"
    using tooltip_edges [OF wa] ha by blast
  have rb: "val (getTooltipXPosition ?b ?win) + val (tl_width (tooltipLayout ?b))
              \<le> val (win_width ?win)"
    using tooltip_edges [OF wb] hb by blast
  have rc: "0 \<le> val (getTooltipXPosition ?c ?win)"
    using tooltip_edges [OF wc] hc by blast
  have re: "val (getTooltipYPosition (Fin 20) ?e ?win) + val (tl_height (tooltipLayout ?e))
              \<le> val (win_height ?win)"
    using tooltip_edges [OF we] he by blast
  have sizes: "val (tl_width (tooltipLayout ?a)) = 300" "val (tl_width (tooltipLayout ?b)) = 300"
    "val (tl_height (tooltipLayout ?e)) = 30" "val (win_width ?win) = 400"
    "val (win_height ?win) = 760"
    by (simp_all add: layout_state_def val_def)
  show ?thesis
    using ra rb rc re hb hc he unfolding sizes by blast
qed

text \<open>
  C4 as it was stated fails. In a window of 320 by 480 with a status-bar offset of 20, the
  tooltip of 300 by 30 for the child of 20 by 20 at (30, 100) is aligned with the left
  edge of the child and its right edge, at 330, is outside the window. And for the child
  at x = 433.1 of width 405.8, a tooltip of width 184.2 and a window of width 728.1 (the
  doubles nearest to these decimals) the exact centred position would fit the window,
  yet the code's rounded sum exceeds the window width and the tooltip is aligned with the
  right edge of the child, outside the window.
\<close>

theorem inside_viewport_counterexample:
  "\<not> inside_viewport (Fin 20) (layout_state (Fin 30) (Fin 100) (Fin 20) (Fin 20) (Fin 300) (Fin 30))
       \<lparr>win_width = Fin 320, win_height = Fin 480\<rparr>
   \<and> is_double (dbl (4331 / 10))
   \<and> is_double (dbl (4058 / 10))
   \<and> is_double (dbl (1842 / 10))
   \<and> is_double (dbl (7281 / 10))
   \<and> 0 \<le> val (dbl (4331 / 10)) + (val (dbl (4058 / 10)) - val (dbl (1842 / 10))) / 2
   \<and> val (dbl (4331 / 10)) + (val (dbl (4058 / 10)) - val (dbl (1842 / 10))) / 2 + val (dbl (1842 / 10)) \<le> val (dbl (7281 / 10))
   \<and> getTooltipXPosition (layout_state (dbl (4331 / 10)) (Fin 0) (dbl (4058 / 10)) (Fin 0) (dbl (1842 / 10)) (Fin 0))
        \<lparr>win_width = dbl (7281 / 10), win_height = Fin 800\<rparr> = dbl (6547 / 10)
   \<and> \<not> inside_viewport (Fin 20) (layout_state (dbl (4331 / 10)) (Fin 0) (dbl (4058 / 10)) (Fin 0) (dbl (1842 / 10)) (Fin 0))
       \<lparr>win_width = dbl (7281 / 10), win_height = Fin 800\<rparr>"
proof -
  have l1: "dbl (4331 / 10) = Fin (3809587887918285 / 2 ^ 43)"
    unfolding dbl_def
    by (rule round_number_eval [where e = "8"]) (simp_all add: rne_def Let_def)
  have d1: "is_double (dbl (4331 / 10))"
    unfolding l1 is_double_def number.case
    by (rule round_number_eval [where e = "8"]) (simp_all add: rne_def Let_def)
  have l2: "dbl (4058 / 10) = Fin (7138909096824013 / 2 ^ 44)"
    unfolding dbl_def
    by (rule round_number_eval [where e = "8"]) (simp_all add: rne_def Let_def)
  have d2: "is_double (dbl (4058 / 10))"
    unfolding l2 is_double_def number.case
    by (rule round_number_eval [where e = "8"]) (simp_all add: rne_def Let_def)
  have l3: "dbl (1842 / 10) = Fin (3240480669381427 / 2 ^ 44)"
    unfolding dbl_def
    by (rule round_number_eval [where e = "7"]) (simp_all add: rne_def Let_def)
  have d3: "is_double (dbl (1842 / 10))"
    unfolding l3 is_double_def number.case
    by (rule round_number_eval [where e = "7"]) (simp_all add: rne_def Let_def)
  have l4: "dbl (7281 / 10) = Fin (6404435329469645 / 2 ^ 43)"
    unfolding dbl_def
    by (rule round_number_eval [where e = "9"]) (simp_all add: rne_def Let_def)
  have d4: "is_double (dbl (7281 / 10))"
    unfolding l4 is_double_def number.case
    by (rule round_number_eval [where e = "9"]) (simp_all add: rne_def Let_def)
  have l5: "dbl (6547 / 10) = Fin (2879401050819789 / 2 ^ 42)"
    unfolding dbl_def
    by (rule round_number_eval [where e = "9"]) (simp_all add: rne_def Let_def)
  have d5: "is_double (dbl (6547 / 10))"
    unfolding l5 is_double_def number.case
    by (rule round_number_eval [where e = "9"]) (simp_all add: rne_def Let_def)
  have s1: "fsub (Fin (7138909096824013 / 2 ^ 44)) (Fin (3240480669381427 / 2 ^ 44)) = Fin (1949214213721293 / 2 ^ 43)"
    unfolding fsub_def fneg.simps fadd.simps fdiv2.simps
    by (rule round_number_eval [where e = "7"]) (simp_all add: rne_def Let_def)
  have s2: "fdiv2 (Fin (1949214213721293 / 2 ^ 43)) = Fin (1949214213721293 / 2 ^ 44)"
    unfolding fsub_def fneg.simps fadd.simps fdiv2.simps
    by (rule round_number_eval [where e = "6"]) (simp_all add: rne_def Let_def)
  have s3: "fadd (Fin (3809587887918285 / 2 ^ 43)) (Fin (1949214213721293 / 2 ^ 44)) = Fin (1196048748694733 / 2 ^ 41)"
    unfolding fsub_def fneg.simps fadd.simps fdiv2.simps
    by (rule round_number_eval [where e = "9"]) (simp_all add: rne_def Let_def)
  have s4: "fadd (Fin (1196048748694733 / 2 ^ 41)) (Fin (3240480669381427 / 2 ^ 44)) = Fin (3202217664734823 / 2 ^ 42)"
    unfolding fsub_def fneg.simps fadd.simps fdiv2.simps
    by (rule round_number_eval [where e = "9"]) (simp_all add: rne_def Let_def)
  have s5: "fadd (Fin (3809587887918285 / 2 ^ 43)) (Fin (7138909096824013 / 2 ^ 44)) = Fin (1844760609082573 / 2 ^ 41)"
    unfolding fsub_def fneg.simps fadd.simps fdiv2.simps
    by (rule round_number_eval [where e = "9"]) (simp_all add: rne_def Let_def)
  have s6: "fsub (Fin (1844760609082573 / 2 ^ 41)) (Fin (3240480669381427 / 2 ^ 44)) = Fin (2879401050819789 / 2 ^ 42)"
    unfolding fsub_def fneg.simps fadd.simps fdiv2.simps
    by (rule round_number_eval [where e = "9"]) (simp_all add: rne_def Let_def)
  have over: "fgt (Fin (3202217664734823 / 2 ^ 42)) (Fin (6404435329469645 / 2 ^ 43))"
    by (simp add: fgt_def)
  have pos: "getTooltipXPosition (layout_state (dbl (4331 / 10)) (Fin 0) (dbl (4058 / 10)) (Fin 0) (dbl (1842 / 10)) (Fin 0))
        \<lparr>win_width = dbl (7281 / 10), win_height = Fin 800\<rparr> = dbl (6547 / 10)"
    unfolding getTooltipXPosition_def overflowRight_def Let_def layout_state_def
    by (simp only: ChildRect.select_convs TooltipRect.select_convs State.select_convs Window.select_convs l1 l2 l3 l4 l5 s1 s2 s3 s4 s5 s6 over if_True)
  have exact: "val (dbl (4331 / 10)) + (val (dbl (4058 / 10)) - val (dbl (1842 / 10))) / 2 + val (dbl (1842 / 10)) \<le> val (dbl (7281 / 10))"
    unfolding l1 l2 l3 l4 l5 val_def by simp
  have whole_case: "\<not> inside_viewport (Fin 20) (layout_state (Fin 30) (Fin 100) (Fin 20) (Fin 20) (Fin 300) (Fin 30))
       \<lparr>win_width = Fin 320, win_height = Fin 480\<rparr>"
    by (simp add: inside_viewport_def scenario_defs val_def)
  have left: "0 \<le> val (dbl (4331 / 10)) + (val (dbl (4058 / 10)) - val (dbl (1842 / 10))) / 2"
    unfolding l1 l2 l3 l4 l5 val_def by simp
  have outside: "\<not> inside_viewport (Fin 20) (layout_state (dbl (4331 / 10)) (Fin 0) (dbl (4058 / 10)) (Fin 0) (dbl (1842 / 10)) (Fin 0))
       \<lparr>win_width = dbl (7281 / 10), win_height = Fin 800\<rparr>"
    unfolding inside_viewport_def pos
    unfolding l1 l2 l3 l4 l5
    by (simp add: layout_state_def val_def)
  show ?thesis
    using whole_case d1 d2 d3 d4 left exact pos outside by (intro conjI) simp_all
qed

section \<open>Properties of the visibility state machine\<close>

lemmas handler_defs = setTimeout_def clearTimeout_def clearTimeouts_def setState_def
  showTooltip_def hideTooltip_def setChildrenRef_def setChildrenPosition_def measured_def
  componentDidMount_def componentWillUnmount_def handleTooltipLayout_def handleTouchStart_def
  handleTouchEndCapture_def handleTouchCancel_def

lemma run_append: "run d (es @ es') w = run d es' (run d es w)"
  by (induction es arbitrary: w) simp_all

lemma run_callback_frame:
  "timers (run_callback c w) = timers w"
  "longPressTimeout (run_callback c w) = longPressTimeout w"
  "now (run_callback c w) = now w"
  "mounted (run_callback c w) = mounted w"
  "tooltipMeasured (state (run_callback c w)) = tooltipMeasured (state w)"
  by (cases c; simp add: showTooltip_def hideTooltip_def setState_def)+

lemma fold_callbacks_frame:
  "timers (fold run_callback cs w) = timers w"
  "longPressTimeout (fold run_callback cs w) = longPressTimeout w"
  "now (fold run_callback cs w) = now w"
  "mounted (fold run_callback cs w) = mounted w"
  "tooltipMeasured (state (fold run_callback cs w)) = tooltipMeasured (state w)"
  by (induction cs arbitrary: w; simp add: run_callback_frame)+

lemma fold_callbacks_visible:
  assumes "mounted w"
    and "HideIfVisibleCb True \<notin> set cs"
    and "ShowTooltipCb \<in> set cs \<or> tooltipVisible (state w)"
  shows "tooltipVisible (state (fold run_callback cs w))"
  using assms
proof (induction cs arbitrary: w)
  case Nil
  then show ?case by simp
next
  case (Cons c cs)
  have "ShowTooltipCb \<in> set cs \<or> tooltipVisible (state (run_callback c w))"
    using Cons.prems
    by (cases c) (auto simp: showTooltip_def hideTooltip_def setState_def)
  moreover have "HideIfVisibleCb True \<notin> set cs"
    using Cons.prems by simp
  moreover have "mounted (run_callback c w)"
    using Cons.prems(1) by (simp add: run_callback_frame)
  ultimately show ?case
    using Cons.IH by simp
qed

lemma fold_callbacks_hidden:
  assumes "ShowTooltipCb \<notin> set cs"
    and "(mounted w \<and> HideIfVisibleCb True \<in> set cs) \<or> \<not> tooltipVisible (state w)"
  shows "\<not> tooltipVisible (state (fold run_callback cs w))"
  using assms
proof (induction cs arbitrary: w)
  case Nil
  then show ?case by simp
next
  case (Cons c cs)
  have "(mounted (run_callback c w) \<and> HideIfVisibleCb True \<in> set cs)
        \<or> \<not> tooltipVisible (state (run_callback c w))"
    using Cons.prems
    by (cases c) (auto simp: showTooltip_def hideTooltip_def setState_def)
  moreover have "ShowTooltipCb \<notin> set cs"
    using Cons.prems by simp
  ultimately show ?case
    using Cons.IH by simp
qed

lemma set_due_callbacks:
  "set (due_callbacks T ts) = cb ` {t \<in> set ts. due t \<le> T}"
  by (auto simp: due_callbacks_def)

lemma advance_frame:
  "timers (advance dt w) = filter (\<lambda>t. now w + dt < due t) (timers w)"
  "longPressTimeout (advance dt w) = longPressTimeout w"
  "now (advance dt w) = now w + dt"
  "mounted (advance dt w) = mounted w"
  "tooltipMeasured (state (advance dt w)) = tooltipMeasured (state w)"
  by (simp_all add: advance_def Let_def fold_callbacks_frame)

lemma advance_visible:
  assumes "mounted w"
    and "\<forall>t \<in> set (timers w). due t \<le> now w + dt \<longrightarrow> cb t \<noteq> HideIfVisibleCb True"
    and "(\<exists>t \<in> set (timers w). due t \<le> now w + dt \<and> cb t = ShowTooltipCb) \<or> tooltipVisible (state w)"
  shows "tooltipVisible (state (advance dt w))"
  unfolding advance_def Let_def
proof (rule fold_callbacks_visible)
  show "mounted (w\<lparr>timers := filter (\<lambda>t. now w + dt < due t) (timers w), now := now w + dt\<rparr>)"
    using assms(1) by simp
  show "HideIfVisibleCb True \<notin> set (due_callbacks (now w + dt) (timers w))"
    using assms(2) by (auto simp: set_due_callbacks)
  show "ShowTooltipCb \<in> set (due_callbacks (now w + dt) (timers w))
        \<or> tooltipVisible (state (w\<lparr>timers := filter (\<lambda>t. now w + dt < due t) (timers w),
                                    now := now w + dt\<rparr>))"
    using assms(3) by (force simp: set_due_callbacks)
qed

lemma advance_hidden:
  assumes "\<forall>t \<in> set (timers w). due t \<le> now w + dt \<longrightarrow> cb t \<noteq> ShowTooltipCb"
    and "(mounted w \<and> (\<exists>t \<in> set (timers w). due t \<le> now w + dt \<and> cb t = HideIfVisibleCb True))
         \<or> \<not> tooltipVisible (state w)"
  shows "\<not> tooltipVisible (state (advance dt w))"
  unfolding advance_def Let_def
proof (rule fold_callbacks_hidden)
  show "ShowTooltipCb \<notin> set (due_callbacks (now w + dt) (timers w))"
    using assms(1) by (auto simp: set_due_callbacks)
  show "(mounted (w\<lparr>timers := filter (\<lambda>t. now w + dt < due t) (timers w),
                      now := now w + dt\<rparr>)
         \<and> HideIfVisibleCb True \<in> set (due_callbacks (now w + dt) (timers w)))
        \<or> \<not> tooltipVisible (state (w\<lparr>timers := filter (\<lambda>t. now w + dt < due t) (timers w),
                                      now := now w + dt\<rparr>))"
    using assms(2) by (force simp: set_due_callbacks)
qed

lemma no_longpress_iff:
  "longpress_timers w = [] \<longleftrightarrow> (\<forall>t \<in> set (timers w). \<not> is_longpress (cb t))"
  by (simp add: longpress_timers_def filter_empty_conv)

text \<open>
  C8. From a mounted instance whose tooltip is hidden and which has no show or hide timer
  pending, a touch start, a wait longer than \<open>delayLongPress\<close>, a touch end (capture
  phase) and a second wait longer than \<open>delayLongPress\<close> make the tooltip visible during
  the first wait and hidden again during the second: the visibility flag before and after
  each of the four events is hidden, hidden, visible, visible, hidden.
\<close>

theorem long_press_shows_then_hides:
  assumes live: "mounted w"
    and hidden: "\<not> tooltipVisible (state w)"
    and quiet: "longpress_timers w = []"
    and w1: "d < wait1" and w2: "d < wait2"
  shows "map (\<lambda>w'. tooltipVisible (state w'))
           (trace d [TouchStart, Wait wait1, TouchEndCapture, Wait wait2] w)
         = [False, False, True, True, False]"
proof -
  define a where "a = step d TouchStart w"
  define b where "b = step d (Wait wait1) a"
  define c where "c = step d TouchEndCapture b"
  define e where "e = step d (Wait wait2) c"
  have q: "\<forall>t \<in> set (timers w). \<not> is_longpress (cb t)"
    using quiet by (simp add: no_longpress_iff)
  have a_timers: "timers a = timers w @ [\<lparr>tid = next_id w, due = now w + d, cb = ShowTooltipCb\<rparr>]"
    and a_now: "now a = now w"
    and a_state: "state a = state w"
    and a_live: "mounted a"
    using live
    by (simp_all add: a_def handleTouchStart_def setTimeout_def)
  have a_hidden: "\<not> tooltipVisible (state a)"
    using hidden a_state by simp
  have b_visible: "tooltipVisible (state b)"
    unfolding b_def step.simps
  proof (rule advance_visible)
    show "mounted a" by (rule a_live)
    show "\<forall>t \<in> set (timers a). due t \<le> now a + wait1 \<longrightarrow> cb t \<noteq> HideIfVisibleCb True"
      using q by (auto simp: a_timers)
    show "(\<exists>t \<in> set (timers a). due t \<le> now a + wait1 \<and> cb t = ShowTooltipCb)
          \<or> tooltipVisible (state a)"
      using w1 by (simp add: a_timers a_now)
  qed
  have b_timers: "\<forall>t \<in> set (timers b). \<not> is_longpress (cb t)"
    using q w1 by (auto simp: b_def advance_frame a_timers a_now)
  have b_now: "now b = now w + wait1"
    by (simp add: b_def advance_frame a_now)
  have b_live: "mounted b"
    using a_live by (simp add: b_def advance_frame)
  have c_live: "mounted c"
    using b_live
    by (simp add: c_def handleTouchEndCapture_def setTimeout_def clearTimeouts_def
        clearTimeout_def Let_def split: option.split)
  have c_state: "state c = state b"
    by (simp add: c_def handleTouchEndCapture_def setTimeout_def clearTimeouts_def
        clearTimeout_def Let_def split: option.split)
  have c_now: "now c = now b"
    by (simp add: c_def handleTouchEndCapture_def setTimeout_def clearTimeouts_def
        clearTimeout_def Let_def split: option.split)
  have c_timers: "\<exists>ts h. timers c = ts @ [\<lparr>tid = h, due = now b + d, cb = HideIfVisibleCb True\<rparr>]
                    \<and> set ts \<subseteq> set (timers b)"
    using b_visible
    by (auto simp add: c_def handleTouchEndCapture_def setTimeout_def clearTimeouts_def
        clearTimeout_def Let_def split: option.split)
  have e_hidden: "\<not> tooltipVisible (state e)"
    unfolding e_def step.simps
  proof (rule advance_hidden)
    show "\<forall>t \<in> set (timers c). due t \<le> now c + wait2 \<longrightarrow> cb t \<noteq> ShowTooltipCb"
      using c_timers b_timers by force
    show "(mounted c \<and> (\<exists>t \<in> set (timers c). due t \<le> now c + wait2 \<and> cb t = HideIfVisibleCb True))
          \<or> \<not> tooltipVisible (state c)"
      using c_timers w2 c_live by (auto simp: c_now)
  qed
  have tr: "trace d [TouchStart, Wait wait1, TouchEndCapture, Wait wait2] w = [w, a, b, c, e]"
    unfolding a_def b_def c_def e_def by simp
  show ?thesis
    unfolding tr using hidden a_hidden b_visible c_state e_hidden by simp
qed

text \<open>
  C8 on the freshly mounted component with the default delay of 500 ms and waits of 600
  and 700 ms.
\<close>

theorem long_press_shows_then_hides_witness:
  "mounted (step 500 (Mount (Some (MountedChild (Some 7)))) constructed)
   \<and> \<not> tooltipVisible (state (step 500 (Mount (Some (MountedChild (Some 7)))) constructed))
   \<and> longpress_timers (step 500 (Mount (Some (MountedChild (Some 7)))) constructed) = []
   \<and> (500::nat) < 600 \<and> (500::nat) < 700
   \<and> map (\<lambda>w'. tooltipVisible (state w'))
        (trace 500 [TouchStart, Wait 600, TouchEndCapture, Wait 700]
           (step 500 (Mount (Some (MountedChild (Some 7)))) constructed))
      = [False, False, True, True, False]"
proof -
  let ?w = "step 500 (Mount (Some (MountedChild (Some 7)))) constructed"
  have live: "mounted ?w"
    by (simp add: handler_defs constructed_def)
  have hidden: "\<not> tooltipVisible (state ?w)"
    by (simp add: handler_defs constructed_def initial_state_def)
  have quiet: "longpress_timers ?w = []"
    by (simp add: handler_defs constructed_def longpress_timers_def)
  have w1: "(500::nat) < 600" and w2: "(500::nat) < 700"
    by simp_all
  show ?thesis
    using long_press_shows_then_hides [OF live hidden quiet w1 w2] live hidden quiet by simp
qed

lemma trace_append:
  "set (trace d (es @ es') w) = set (trace d es w) \<union> set (trace d es' (run d es w))"
proof (induction es arbitrary: w)
  case Nil
  show ?case by (cases es') auto
next
  case (Cons e es)
  then show ?case by auto
qed

lemma run_in_trace: "run d es w \<in> set (trace d es w)"
  by (induction es arbitrary: w) simp_all

lemma now_step: "now (step d e w) = now w + elapsed [e]"
  by (cases e) (simp_all add: handler_defs advance_frame split: option.split list.split)

lemma armed_step:
  assumes "armed D h w" and "non_touch e" and "now w + elapsed [e] < D"
  shows "armed D h (step d e w)"
proof (cases e)
  case (Wait dt)
  have "\<not> tooltipVisible (state (advance dt w))"
  proof (rule advance_hidden)
    show "\<forall>t \<in> set (timers w). due t \<le> now w + dt \<longrightarrow> cb t \<noteq> ShowTooltipCb"
      using assms Wait by (fastforce simp: armed_def)
    show "(mounted w \<and> (\<exists>t \<in> set (timers w). due t \<le> now w + dt \<and> cb t = HideIfVisibleCb True))
          \<or> \<not> tooltipVisible (state w)"
      using assms(1) by (simp add: armed_def)
  qed
  then show ?thesis
    using assms(1) Wait by (simp add: armed_def advance_frame)
qed (use assms in \<open>auto simp: armed_def handler_defs split: option.split list.split\<close>)

lemma armed_run:
  assumes "armed D h w" and "\<forall>e \<in> set es. non_touch e" and "now w + elapsed es < D"
  shows "armed D h (run d es w) \<and> (\<forall>w' \<in> set (trace d es w). \<not> tooltipVisible (state w'))"
  using assms
proof (induction es arbitrary: w)
  case Nil
  then show ?case by (simp add: armed_def)
next
  case (Cons e es)
  have split: "elapsed (e # es) = elapsed [e] + elapsed es"
    by (cases e) simp_all
  have "armed D h (step d e w)"
    using Cons.prems split by (intro armed_step) simp_all
  moreover have "now (step d e w) + elapsed es < D"
    using Cons.prems(3) split by (simp add: now_step)
  ultimately have "armed D h (run d es (step d e w))
      \<and> (\<forall>w' \<in> set (trace d es (step d e w)). \<not> tooltipVisible (state w'))"
    using Cons.IH Cons.prems(2) by simp
  then show ?case
    using Cons.prems(1) by (simp add: armed_def)
qed

lemma disarmed_step:
  assumes "disarmed w" and "e \<noteq> TouchStart"
  shows "disarmed (step d e w)"
proof (cases e)
  case (Wait dt)
  have "\<not> tooltipVisible (state (advance dt w))"
  proof (rule advance_hidden)
    show "\<forall>t \<in> set (timers w). due t \<le> now w + dt \<longrightarrow> cb t \<noteq> ShowTooltipCb"
      using assms(1) by (simp add: disarmed_def)
    show "(mounted w \<and> (\<exists>t \<in> set (timers w). due t \<le> now w + dt \<and> cb t = HideIfVisibleCb True))
          \<or> \<not> tooltipVisible (state w)"
      using assms(1) by (simp add: disarmed_def)
  qed
  then show ?thesis
    using assms(1) Wait by (simp add: disarmed_def advance_frame)
qed (use assms in \<open>auto simp: disarmed_def handler_defs Let_def split: option.split list.split\<close>)

lemma disarmed_run:
  assumes "disarmed w" and "TouchStart \<notin> set es"
  shows "\<forall>w' \<in> set (trace d es w). \<not> tooltipVisible (state w')"
  using assms
proof (induction es arbitrary: w)
  case Nil
  then show ?case by (simp add: disarmed_def)
next
  case (Cons e es)
  have "disarmed (step d e w)"
    using Cons.prems by (intro disarmed_step) auto
  then show ?case
    using Cons.IH Cons.prems by (simp add: disarmed_def)
qed

lemma armed_cancel:
  assumes "armed D h w"
  shows "disarmed (step d TouchCancel w)"
  using assms
  by (auto simp: armed_def disarmed_def handler_defs)

text \<open>
  C9. From an instance whose tooltip is hidden and which has no show or hide timer
  pending, take a touch start, then any events other than touches and (un)mounting that
  take less than \<open>delayLongPress\<close> in all, then a touch cancel, then any events but a
  touch start. The tooltip is visible at no point of the sequence; right after the touch
  cancel no show timer is pending and the tooltip is hidden.
\<close>

theorem cancel_before_delay_never_visible:
  assumes hidden: "\<not> tooltipVisible (state w)"
    and quiet: "longpress_timers w = []"
    and mid: "\<forall>e \<in> set mid. non_touch e"
    and early: "elapsed mid < d"
    and rest: "TouchStart \<notin> set rest"
  shows "(\<forall>w' \<in> set (trace d (TouchStart # mid @ TouchCancel # rest) w).
            \<not> tooltipVisible (state w'))
         \<and> ShowTooltipCb \<notin> set (map cb (timers (run d (TouchStart # mid @ [TouchCancel]) w)))
         \<and> \<not> tooltipVisible (state (run d (TouchStart # mid @ [TouchCancel]) w))"
proof -
  define a where "a = step d TouchStart w"
  define b where "b = run d mid a"
  define c where "c = step d TouchCancel b"
  have "\<forall>t \<in> set (timers w). \<not> is_longpress (cb t)"
    using quiet by (simp add: no_longpress_iff)
  then have a: "armed (now w + d) (next_id w) a"
    using hidden by (auto simp: a_def armed_def handler_defs)
  have "now a = now w"
    using now_step [of d TouchStart w] by (simp add: a_def)
  then have "now a + elapsed mid < now w + d"
    using early by simp
  then have b: "armed (now w + d) (next_id w) b"
    and mid_hidden: "\<forall>w' \<in> set (trace d mid a). \<not> tooltipVisible (state w')"
    using armed_run [OF a mid] by (simp_all add: b_def)
  have c: "disarmed c"
    using armed_cancel [OF b] by (simp add: c_def)
  have rest_hidden: "\<forall>w' \<in> set (trace d rest c). \<not> tooltipVisible (state w')"
    using disarmed_run [OF c rest] .
  have tr: "set (trace d (TouchStart # mid @ TouchCancel # rest) w)
            = {w} \<union> set (trace d mid a) \<union> set (trace d rest c)"
    using run_in_trace [of d mid a] by (auto simp: trace_append a_def b_def c_def)
  have run: "run d (TouchStart # mid @ [TouchCancel]) w = c"
    by (simp add: run_append a_def b_def c_def)
  show ?thesis
    unfolding tr run using hidden mid_hidden rest_hidden c by (auto simp: disarmed_def)
qed

text \<open>
  C9 on the freshly mounted component with the default delay of 500 ms: the cancel comes
  450 ms after the touch start, and 1600 ms pass afterwards.
\<close>

theorem cancel_before_delay_never_visible_witness:
  "\<not> tooltipVisible (state (step 500 (Mount (Some (MountedChild (Some 7)))) constructed))
   \<and> longpress_timers (step 500 (Mount (Some (MountedChild (Some 7)))) constructed) = []
   \<and> list_all non_touch [Wait 200, DimensionsChange, Wait 250]
   \<and> elapsed [Wait 200, DimensionsChange, Wait 250] < 500
   \<and> TouchStart \<notin> set [Wait 1000, TouchEndCapture, Wait 600]
   \<and> list_all (\<lambda>w'. \<not> tooltipVisible (state w'))
        (trace 500 (TouchStart # [Wait 200, DimensionsChange, Wait 250]
                      @ TouchCancel # [Wait 1000, TouchEndCapture, Wait 600])
           (step 500 (Mount (Some (MountedChild (Some 7)))) constructed))
   \<and> ShowTooltipCb \<notin> set (map cb (timers
        (run 500 (TouchStart # [Wait 200, DimensionsChange, Wait 250] @ [TouchCancel])
           (step 500 (Mount (Some (MountedChild (Some 7)))) constructed))))"
proof -
  let ?w = "step 500 (Mount (Some (MountedChild (Some 7)))) constructed"
  let ?mid = "[Wait 200, DimensionsChange, Wait 250]"
  let ?rest = "[Wait 1000, TouchEndCapture, Wait 600]"
  have hidden: "\<not> tooltipVisible (state ?w)"
    by (simp add: handler_defs constructed_def initial_state_def)
  have quiet: "longpress_timers ?w = []"
    by (simp add: handler_defs constructed_def longpress_timers_def)
  have mid: "\<forall>e \<in> set ?mid. non_touch e"
    by simp
  have early: "elapsed ?mid < 500"
    by simp
  have rest: "TouchStart \<notin> set ?rest"
    by simp
  note r = cancel_before_delay_never_visible [OF hidden quiet mid early rest]
  have "list_all (\<lambda>w'. \<not> tooltipVisible (state w'))
          (trace 500 (TouchStart # ?mid @ TouchCancel # ?rest) ?w)"
    unfolding list_all_iff using r by blast
  moreover have "list_all non_touch ?mid"
    by simp
  ultimately show ?thesis
    using r hidden quiet early rest by blast
qed

subsection \<open>Timers that are not cancelled\<close>

lemmas run_defs = handler_defs advance_def due_callbacks_def constructed_def initial_state_def
  longpress_timers_def

text \<open>
  C2 fails on the code: \<open>_handleTouchStart\<close> schedules its timer without clearing the
  one \<open>_longPressTimeout\<close> holds, unlike \<open>_handleTouchEndCapture\<close>. With a delay of 500
  ms: after a long press (touch start, 600 ms, touch end) and a new touch start 100 ms
  later, the hide timer of the touch end and the show timer of the touch start are both
  pending, and both fire, the hide timer 400 ms later and the show timer 100 ms after
  that. Two touch starts in a row leave two show timers pending.
\<close>

theorem touch_start_keeps_pending_timer:
  "map cb (longpress_timers
      (run 500 [Mount (Some (MountedChild (Some 7))), TouchStart, Wait 600, TouchEndCapture,
                Wait 100, TouchStart] constructed))
     = [HideIfVisibleCb True, ShowTooltipCb]
   \<and> map (\<lambda>w'. tooltipVisible (state w'))
       (trace 500 [Wait 400, Wait 100]
          (run 500 [Mount (Some (MountedChild (Some 7))), TouchStart, Wait 600, TouchEndCapture,
                    Wait 100, TouchStart] constructed))
     = [True, False, True]
   \<and> map cb (longpress_timers
      (run 500 [Mount (Some (MountedChild (Some 7))), TouchStart, TouchStart] constructed))
     = [ShowTooltipCb, ShowTooltipCb]"
  by (simp add: run_defs)

text \<open>
  C1 fails on the code: \<open>componentWillUnmount\<close> clears only the timer whose handle
  \<open>_longPressTimeout\<close> holds. Unmounting right after mounting removes the listener but
  leaves the 500 ms measurement timer pending; it fires and issues its measurement
  request, and the answer calls \<open>setState\<close> on the unmounted component. A hide timer whose
  handle a later touch start has overwritten survives the unmounting too, fires 500 ms
  after it and calls \<open>setState\<close> as well. React ignores both calls: the state stays as it
  was at the unmounting.
\<close>

theorem timers_outlive_unmount:
  "map cb (timers (run 500 [Mount (Some (MountedChild (Some 7))), Unmount] constructed))
     = [MeasureCb 7]
   \<and> listener (run 500 [Mount (Some (MountedChild (Some 7))), Unmount] constructed) = False
   \<and> measuring (run 500 [Mount (Some (MountedChild (Some 7))), Unmount, Wait 500] constructed)
     = [7]
   \<and> late_setState (run 500 [Mount (Some (MountedChild (Some 7))), Unmount, Wait 500,
        MeasureResult (Fin 0) (Fin 0) (Fin 40) (Fin 20) (Fin 10) (Fin 30)] constructed) = 1
   \<and> state (run 500 [Mount (Some (MountedChild (Some 7))), Unmount, Wait 500,
        MeasureResult (Fin 0) (Fin 0) (Fin 40) (Fin 20) (Fin 10) (Fin 30)] constructed)
     = state (run 500 [Mount (Some (MountedChild (Some 7))), Unmount] constructed)
   \<and> map cb (longpress_timers
        (run 500 [Mount (Some (MountedChild (Some 7))), TouchStart, Wait 600, TouchEndCapture,
                  Wait 100, TouchStart, Unmount] constructed))
     = [HideIfVisibleCb True]
   \<and> map (\<lambda>w'. (mounted w', map cb (longpress_timers w'), late_setState w'))
        (trace 500 [Wait 500]
          (run 500 [Mount (Some (MountedChild (Some 7))), TouchStart, Wait 600, TouchEndCapture,
                    Wait 100, TouchStart, Unmount] constructed))
     = [(False, [HideIfVisibleCb True], 0), (False, [], 1)]
   \<and> state (run 500 [Mount (Some (MountedChild (Some 7))), TouchStart, Wait 600,
                     TouchEndCapture, Wait 100, TouchStart, Unmount, Wait 500] constructed)
     = state (run 500 [Mount (Some (MountedChild (Some 7))), TouchStart, Wait 600,
                       TouchEndCapture, Wait 100, TouchStart, Unmount] constructed)"
  by (simp add: run_defs)

section \<open>Properties of the layout observer\<close>

lemma step_mounted:
  "mounted (step d e w) = (e \<noteq> Unmount \<and> (mounted w \<or> (\<exists>r. e = Mount r)))"
  by (cases e) (auto simp: handler_defs advance_frame split: option.split list.split)

lemma run_mounted: "mounted w \<Longrightarrow> Unmount \<notin> set es \<Longrightarrow> mounted (run d es w)"
  by (induction es arbitrary: w) (auto simp: step_mounted)

lemma step_measured:
  "mounted w \<Longrightarrow>
   tooltipMeasured (state (step d e w)) = (tooltipMeasured (state w) \<or> is_layout e)"
  by (cases e) (auto simp: handler_defs advance_frame split: option.split list.split)

lemma run_measured:
  "mounted w \<Longrightarrow> Unmount \<notin> set es \<Longrightarrow>
   tooltipMeasured (state (run d es w)) = (tooltipMeasured (state w) \<or> list_ex is_layout es)"
proof (induction es arbitrary: w)
  case Nil
  then show ?case by simp
next
  case (Cons e es)
  have "mounted (step d e w)"
    using Cons.prems by (auto simp: step_mounted)
  then show ?case
    using Cons.IH [of "step d e w"] Cons.prems by (auto simp: step_measured)
qed

text \<open>
  C10. In every run of the mounted component (any events but an unmounting, after the
  mounting), the first layout event of the tooltip stores the size it carries as
  \<open>tooltipLayout\<close>, sets the opacity to 0.9 and sets the measured flag, and leaves the rest
  of the state as it was; a layout event that comes after another one leaves the whole
  instance unchanged.
\<close>

theorem first_layout_only:
  assumes "Unmount \<notin> set es"
  shows "(\<not> list_ex is_layout es \<longrightarrow>
      state (run d (Mount r # es @ [TooltipLayout lwidth lheight]) constructed)
        = (state (run d (Mount r # es) constructed))
            \<lparr>tooltipLayout := \<lparr>tl_width = lwidth, tl_height = lheight\<rparr>,
             tooltipOpacity := 9 / 10,
             tooltipMeasured := True\<rparr>)
   \<and> (list_ex is_layout es \<longrightarrow>
        run d (Mount r # es @ [TooltipLayout lwidth lheight]) constructed
          = run d (Mount r # es) constructed)"
proof -
  define w where "w = step d (Mount r) constructed"
  have live: "mounted w"
    by (simp add: w_def handler_defs split: option.split)
  have fresh: "\<not> tooltipMeasured (state w)"
    by (simp add: w_def handler_defs constructed_def initial_state_def
        split: option.split)
  have m: "tooltipMeasured (state (run d es w)) = list_ex is_layout es"
    using run_measured [OF live assms] fresh by simp
  have l: "mounted (run d es w)"
    using run_mounted [OF live assms] .
  have "run d (Mount r # es @ [TooltipLayout lwidth lheight]) constructed
        = handleTooltipLayout lwidth lheight (run d es w)"
    by (simp add: run_append w_def)
  moreover have "run d (Mount r # es) constructed = run d es w"
    by (simp add: w_def)
  ultimately show ?thesis
    by (simp add: handleTooltipLayout_def setState_def m l)
qed

text \<open>
  C10 on a run that mounts the component and shows the tooltip: the first layout event,
  of 120 by 30, is stored; a second one, of 200 by 50, changes nothing.
\<close>

theorem first_layout_only_witness:
  "state (run 500 [Mount (Some (MountedChild (Some 7))), TouchStart, Wait 600,
                   TooltipLayout (Fin 120) (Fin 30)] constructed)
     = \<lparr>childrenLayout = \<lparr>cl_x = Fin 0, cl_y = Fin 0, cl_width = Fin 0, cl_height = Fin 0\<rparr>,
        tooltipLayout = \<lparr>tl_width = Fin 120, tl_height = Fin 30\<rparr>,
        tooltipVisible = True,
        tooltipOpacity = 9 / 10,
        tooltipMeasured = True\<rparr>
   \<and> run 500 [Mount (Some (MountedChild (Some 7))), TouchStart, Wait 600,
              TooltipLayout (Fin 120) (Fin 30), TooltipLayout (Fin 200) (Fin 50)] constructed
     = run 500 [Mount (Some (MountedChild (Some 7))), TouchStart, Wait 600,
                TooltipLayout (Fin 120) (Fin 30)] constructed"
proof -
  let ?r = "Some (MountedChild (Some 7))"
  let ?es = "[TouchStart, Wait 600]"
  have live: "Unmount \<notin> set ?es" and live': "Unmount \<notin> set (?es @ [TooltipLayout (Fin 120) (Fin 30)])"
    by simp_all
  have first: "\<not> list_ex is_layout ?es"
    by simp
  have later: "list_ex is_layout (?es @ [TooltipLayout (Fin 120) (Fin 30)])"
    by simp
  have before: "state (run 500 (Mount ?r # ?es) constructed)
     = \<lparr>childrenLayout = \<lparr>cl_x = Fin 0, cl_y = Fin 0, cl_width = Fin 0, cl_height = Fin 0\<rparr>,
        tooltipLayout = \<lparr>tl_width = Fin 0, tl_height = Fin 0\<rparr>,
        tooltipVisible = True,
        tooltipOpacity = 0,
        tooltipMeasured = False\<rparr>"
    by (simp add: handler_defs advance_def due_callbacks_def constructed_def initial_state_def)
  have a: "state (run 500 (Mount ?r # ?es @ [TooltipLayout (Fin 120) (Fin 30)]) constructed)
        = (state (run 500 (Mount ?r # ?es) constructed))
            \<lparr>tooltipLayout := \<lparr>tl_width = Fin 120, tl_height = Fin 30\<rparr>,
             tooltipOpacity := 9 / 10,
             tooltipMeasured := True\<rparr>"
    using first_layout_only [OF live, of 500 ?r "Fin 120" "Fin 30"] first by blast
  have b: "run 500 (Mount ?r # (?es @ [TooltipLayout (Fin 120) (Fin 30)])
                      @ [TooltipLayout (Fin 200) (Fin 50)]) constructed
           = run 500 (Mount ?r # ?es @ [TooltipLayout (Fin 120) (Fin 30)]) constructed"
    using first_layout_only [OF live', of 500 ?r "Fin 200" "Fin 50"] later by blast
  have app: "Mount ?r # ?es @ [TooltipLayout (Fin 120) (Fin 30)]
      = [Mount ?r, TouchStart, Wait 600, TooltipLayout (Fin 120) (Fin 30)]"
    "Mount ?r # (?es @ [TooltipLayout (Fin 120) (Fin 30)]) @ [TooltipLayout (Fin 200) (Fin 50)]
      = [Mount ?r, TouchStart, Wait 600, TooltipLayout (Fin 120) (Fin 30),
         TooltipLayout (Fin 200) (Fin 50)]"
    by simp_all
  show ?thesis
    using a b unfolding before app by simp
qed

section \<open>Properties of rendering\<close>

text \<open>
  C3 (as amended). Whenever the wrapper has exactly one child, the \<open>onLongPress\<close> the
  rendered child receives is the no-op, whatever the child's own props are, unless the
  extra properties passed to the wrapper contain an \<open>onLongPress\<close> themselves: then the
  child receives that one, since \<open>rest\<close> is spread after the no-op.
\<close>

theorem child_onLongPress_value:
  assumes "children p = [c]"
  shows "child_onLongPress sb win p st
           = Some (case passed p ''onLongPress'' of None \<Rightarrow> Noop | Some v \<Rightarrow> v)"
  using assms
  by (simp add: child_onLongPress_def render_def cloneElement_def child_config_def rest_of_def
      props_object_def map_add_def restrict_map_def split: option.split)

text \<open>
  C3 as amended, on a child that brings an \<open>onLongPress\<close> of its own and a wrapper with
  no extra properties.
\<close>

theorem child_onLongPress_value_witness:
  "children (example_props [''onLongPress'' \<mapsto> ConsumerFn 2] Map.empty)
     = [\<lparr>el_props = [''onLongPress'' \<mapsto> ConsumerFn 2], el_ref = None\<rparr>]
   \<and> child_onLongPress (Fin 20) \<lparr>win_width = Fin 400, win_height = Fin 800\<rparr>
        (example_props [''onLongPress'' \<mapsto> ConsumerFn 2] Map.empty) initial_state
     = Some Noop"
proof -
  let ?p = "example_props [''onLongPress'' \<mapsto> ConsumerFn 2] Map.empty"
  have one: "children ?p = [\<lparr>el_props = [''onLongPress'' \<mapsto> ConsumerFn 2], el_ref = None\<rparr>]"
    by (simp add: example_props_def)
  have none: "passed ?p ''onLongPress'' = None"
    by (simp add: example_props_def)
  show ?thesis
    using child_onLongPress_value
        [OF one, of "Fin 20" "\<lparr>win_width = Fin 400, win_height = Fin 800\<rparr>" initial_state]
      one none by simp
qed

text \<open>
  C3 as it was stated fails: an \<open>onLongPress\<close> written on the wrapper reaches the child
  in place of the no-op.
\<close>

theorem child_onLongPress_counterexample:
  "child_onLongPress (Fin 20) \<lparr>win_width = Fin 400, win_height = Fin 800\<rparr>
     (example_props Map.empty [''onLongPress'' \<mapsto> ConsumerFn 1]) initial_state
   = Some (ConsumerFn 1)
   \<and> child_onLongPress (Fin 20) \<lparr>win_width = Fin 400, win_height = Fin 800\<rparr>
     (example_props Map.empty [''onLongPress'' \<mapsto> ConsumerFn 1]) initial_state
   \<noteq> Some Noop"
  by (simp add: child_onLongPress_def render_def cloneElement_def child_config_def rest_of_def
      props_object_def example_props_def map_add_def restrict_map_def)

end
